theory Spec2Isabelle
  imports Main "HOL-Library.List_Lexorder" "HOL-Library.Multiset"
begin

section \<open>Python values used by the application\<close>

text \<open>
  A Python \<open>str\<close> is a sequence of Unicode code points, so a string is a list of
  code points (\<open>len\<close>, \<open>strip\<close> and the regular expressions of \<open>strptime\<close>
  all work on code points).  \<open>ustr\<close> reads an ASCII literal; other characters are
  written by their code point (225 is a-acute, 176 the degree sign, ...).  Code points
  are natural numbers; the strings of a request only hold Unicode scalar values.
\<close>

type_synonym pystr = "nat list"

definition ustr :: "string \<Rightarrow> pystr" where
  "ustr s = map of_char s"

text \<open>The exceptions that the modelled code can raise.\<close>

datatype py_error = ValueError | TypeError | IndexError | OverflowError

text \<open>\<open>xs[i]\<close> for a non-negative index: out of range raises \<open>IndexError\<close>.\<close>

definition py_index :: "'a list \<Rightarrow> nat \<Rightarrow> py_error + 'a" where
  "py_index xs i = (if i < length xs then Inr (xs ! i) else Inl IndexError)"

text \<open>
  \<open>str.isspace\<close> for one character, as \<open>str.strip()\<close> uses it: the ASCII
  controls 9-13 and 28-31, the space, and the Unicode white space characters.
\<close>

definition py_isspace :: "nat \<Rightarrow> bool" where
  "py_isspace c \<longleftrightarrow>
     (9 \<le> c \<and> c \<le> 13) \<or> (28 \<le> c \<and> c \<le> 32) \<or> c = 133 \<or> c = 160 \<or> c = 5760 \<or>
     (8192 \<le> c \<and> c \<le> 8202) \<or> c = 8232 \<or> c = 8233 \<or> c = 8239 \<or> c = 8287 \<or> c = 12288"

definition py_strip :: "pystr \<Rightarrow> pystr" where
  "py_strip s = rev (dropWhile py_isspace (rev (dropWhile py_isspace s)))"

text \<open>
  The decimal value of a character of category Nd, which is what the regular expression
  \<open>\d\<close> matches and \<open>int\<close> converts.  The ASCII digits are fixed; the table of the
  other decimal digits belongs to the Unicode database of the interpreter and is the
  parameter \<open>nd\<close> (it gives the value of a non-ASCII digit, and \<open>None\<close> elsewhere).
\<close>

definition valor_digito :: "(nat \<Rightarrow> nat option) \<Rightarrow> nat \<Rightarrow> nat option" where
  "valor_digito nd c =
     (if 48 \<le> c \<and> c \<le> 57 then Some (c - 48)
      else if c < 128 then None
      else (case nd c of None \<Rightarrow> None | Some v \<Rightarrow> if v < 10 then Some v else None))"

definition es_digito :: "(nat \<Rightarrow> nat option) \<Rightarrow> nat \<Rightarrow> bool" where
  "es_digito nd c \<longleftrightarrow> valor_digito nd c \<noteq> None"

text \<open>An example table: the Arabic-Indic digits and the fullwidth digits.\<close>

definition nd_ejemplo :: "nat \<Rightarrow> nat option" where
  "nd_ejemplo c =
     (if 1632 \<le> c \<and> c \<le> 1641 then Some (c - 1632)
      else if 65296 \<le> c \<and> c \<le> 65305 then Some (c - 65296)
      else None)"

text \<open>
  \<open>int(s)\<close> on a string: surrounding white space is dropped, the rest must be a
  non-empty run of decimal digits (signs and underscores do not occur in the groups that
  \<open>strptime\<close> converts), otherwise \<open>ValueError\<close>.
\<close>

fun py_int_acc :: "(nat \<Rightarrow> nat option) \<Rightarrow> nat \<Rightarrow> pystr \<Rightarrow> py_error + nat" where
  "py_int_acc nd acc [] = Inr acc"
| "py_int_acc nd acc (c # cs) =
     (case valor_digito nd c of
        None \<Rightarrow> Inl ValueError
      | Some v \<Rightarrow> py_int_acc nd (10 * acc + v) cs)"

definition py_int :: "(nat \<Rightarrow> nat option) \<Rightarrow> pystr \<Rightarrow> py_error + nat" where
  "py_int nd s =
     (let t = py_strip s in if t = [] then Inl ValueError else py_int_acc nd 0 t)"

section \<open>datetime\<close>

record fecha_hora =
  year :: nat
  month :: nat
  day :: nat

definition is_leap :: "nat \<Rightarrow> bool" where
  "is_leap y \<longleftrightarrow> y mod 4 = 0 \<and> (y mod 100 \<noteq> 0 \<or> y mod 400 = 0)"

definition DAYS_IN_MONTH :: "nat list" where
  "DAYS_IN_MONTH = [31, 28, 31, 30, 31, 30, 31, 31, 30, 31, 30, 31]"

definition days_in_month :: "nat \<Rightarrow> nat \<Rightarrow> nat" where
  "days_in_month y m = (if m = 2 \<and> is_leap y then 29 else DAYS_IN_MONTH ! (m - 1))"

definition days_before_year :: "nat \<Rightarrow> nat" where
  "days_before_year y = (let p = y - 1 in p * 365 + p div 4 - p div 100 + p div 400)"

definition days_before_month :: "nat \<Rightarrow> nat \<Rightarrow> nat" where
  "days_before_month y m =
     sum_list (take (m - 1) DAYS_IN_MONTH) + (if m > 2 \<and> is_leap y then 1 else 0)"

definition ymd2ord :: "nat \<Rightarrow> nat \<Rightarrow> nat \<Rightarrow> nat" where
  "ymd2ord y m d = days_before_year y + days_before_month y m + d"

text \<open>The checks of the \<open>datetime\<close> constructor: years 1 to 9999, a day of the month.\<close>

definition fecha_valida :: "nat \<Rightarrow> nat \<Rightarrow> nat \<Rightarrow> bool" where
  "fecha_valida y m d \<longleftrightarrow>
     1 \<le> y \<and> y \<le> 9999 \<and> 1 \<le> m \<and> m \<le> 12 \<and> 1 \<le> d \<and> d \<le> days_in_month y m"

definition toordinal :: "fecha_hora \<Rightarrow> nat" where
  "toordinal f = ymd2ord (year f) (month f) (day f)"

text \<open>\<open>weekday()\<close>: Monday is 0, Sunday is 6.\<close>

definition weekday :: "fecha_hora \<Rightarrow> nat" where
  "weekday f = (toordinal f + 6) mod 7"


text \<open>
  The decimal fields of \<open>strftime\<close>.  \<open>%d\<close> and \<open>%m\<close> have two digits, padded with
  a zero.  \<open>%Y\<close> is printed by the C library of the platform; on Linux it is the year
  in decimal with no padding, so the years 1000 to 9999 have their four digits and the
  years 1 to 999 have fewer (999, not 0999).  \<open>py_str_nat\<close> is the decimal text of a
  number, which is also what \<open>str(n)\<close> gives.
\<close>

definition dos_digitos :: "nat \<Rightarrow> pystr" where
  "dos_digitos n = [48 + n div 10 mod 10, 48 + n mod 10]"

definition cuatro_digitos :: "nat \<Rightarrow> pystr" where
  "cuatro_digitos n =
     [48 + n div 1000 mod 10, 48 + n div 100 mod 10, 48 + n div 10 mod 10, 48 + n mod 10]"

function py_str_nat :: "nat \<Rightarrow> pystr" where
  "py_str_nat n = (if n < 10 then [48 + n] else py_str_nat (n div 10) @ [48 + n mod 10])"
  by pat_completeness auto
termination
  by (relation "measure (\<lambda>n. n)") auto

declare py_str_nat.simps [simp del]

text \<open>\<open>fecha.strftime('%d/%m/%Y')\<close>\<close>

definition strftime_dmY :: "fecha_hora \<Rightarrow> pystr" where
  "strftime_dmY f =
     dos_digitos (day f) @ [47] @ dos_digitos (month f) @ [47] @ py_str_nat (year f)"

text \<open>
  The ISO form of a date, YYYY-MM-DD with every field padded with zeros (the year to
  four digits, \<open>cuatro_digitos\<close>): the form in which the specification has the dates
  stored.  \<open>no_posterior f g\<close> is the order of
  the calendar: \<open>f\<close> is the day \<open>g\<close> or an earlier day.
\<close>

definition isoformat :: "fecha_hora \<Rightarrow> pystr" where
  "isoformat f =
     cuatro_digitos (year f) @ [45] @ dos_digitos (month f) @ [45] @ dos_digitos (day f)"

definition no_posterior :: "fecha_hora \<Rightarrow> fecha_hora \<Rightarrow> bool" where
  "no_posterior f g \<longleftrightarrow>
     year f < year g \<or>
     (year f = year g \<and> (month f < month g \<or> (month f = month g \<and> day f \<le> day g)))"

subsection \<open>\<open>strptime(s, '%Y-%m-%d')\<close>\<close>

text \<open>
  \<open>strptime\<close> turns the format into the regular expression
  \<^verbatim>\<open>(?P<Y>\d\d\d\d)-(?P<m>1[0-2]|0[1-9]|[1-9])-(?P<d>3[0-1]|[1-2]\d|0[1-9]|[1-9]| [1-9])\<close>
  and matches it at the start of the string.  A matcher returns, in the order in which
  the backtracking engine tries them, the ways to match a prefix: the matched text and
  the rest of the input.  The match that \<open>re.match\<close> reports is the first one of the
  whole expression.
\<close>

type_synonym matcher = "pystr \<Rightarrow> (pystr \<times> pystr) list"

fun un_caracter :: "(nat \<Rightarrow> bool) \<Rightarrow> matcher" where
  "un_caracter P [] = []"
| "un_caracter P (c # cs) = (if P c then [([c], cs)] else [])"

definition seguido :: "matcher \<Rightarrow> matcher \<Rightarrow> matcher" where
  "seguido p q s = [(a @ b, r). (a, t) \<leftarrow> p s, (b, r) \<leftarrow> q t]"

definition alternativa :: "matcher \<Rightarrow> matcher \<Rightarrow> matcher" where
  "alternativa p q s = p s @ q s"

definition en_rango :: "nat \<Rightarrow> nat \<Rightarrow> nat \<Rightarrow> bool" where
  "en_rango lo hi c \<longleftrightarrow> lo \<le> c \<and> c \<le> hi"

definition literal :: "nat \<Rightarrow> matcher" where
  "literal k = un_caracter (\<lambda>c. c = k)"

definition grupo_Y :: "(nat \<Rightarrow> nat option) \<Rightarrow> matcher" where
  "grupo_Y nd =
     seguido (un_caracter (es_digito nd)) (seguido (un_caracter (es_digito nd))
       (seguido (un_caracter (es_digito nd)) (un_caracter (es_digito nd))))"

definition grupo_m :: matcher where
  "grupo_m =
     alternativa (seguido (literal 49) (un_caracter (en_rango 48 50)))
       (alternativa (seguido (literal 48) (un_caracter (en_rango 49 57)))
          (un_caracter (en_rango 49 57)))"

definition grupo_d :: "(nat \<Rightarrow> nat option) \<Rightarrow> matcher" where
  "grupo_d nd =
     alternativa (seguido (literal 51) (un_caracter (en_rango 48 49)))
       (alternativa (seguido (un_caracter (en_rango 49 50)) (un_caracter (es_digito nd)))
          (alternativa (seguido (literal 48) (un_caracter (en_rango 49 57)))
             (alternativa (un_caracter (en_rango 49 57))
                (seguido (literal 32) (un_caracter (en_rango 49 57))))))"

text \<open>All matches of the whole expression, first the one the engine finds: the three
  groups and the unconverted rest.\<close>

definition re_match_ymd ::
  "(nat \<Rightarrow> nat option) \<Rightarrow> pystr \<Rightarrow> (pystr \<times> pystr \<times> pystr \<times> pystr) list" where
  "re_match_ymd nd s =
     [(gy, gm, gd, r). (gy, s1) \<leftarrow> grupo_Y nd s, (g1, s2) \<leftarrow> literal 45 s1,
        (gm, s3) \<leftarrow> grupo_m s2, (g2, s4) \<leftarrow> literal 45 s3, (gd, r) \<leftarrow> grupo_d nd s4]"

text \<open>
  \<open>datetime.datetime.strptime(s, '%Y-%m-%d')\<close> for a string \<open>s\<close>: no match, text
  left after the match, and a date that the calendar does not have (year 0, 31 April,
  29 February of a common year) all raise \<open>ValueError\<close>.
\<close>

definition strptime_ymd :: "(nat \<Rightarrow> nat option) \<Rightarrow> pystr \<Rightarrow> py_error + fecha_hora" where
  "strptime_ymd nd s =
     (case re_match_ymd nd s of
        [] \<Rightarrow> Inl ValueError
      | (gy, gm, gd, r) # _ \<Rightarrow>
          if r \<noteq> [] then Inl ValueError
          else (case py_int nd gy of Inl e \<Rightarrow> Inl e | Inr y \<Rightarrow>
                (case py_int nd gm of Inl e \<Rightarrow> Inl e | Inr m \<Rightarrow>
                 (case py_int nd gd of Inl e \<Rightarrow> Inl e | Inr d \<Rightarrow>
                    if fecha_valida y m d then Inr \<lparr>year = y, month = m, day = d\<rparr>
                    else Inl ValueError))))"

section \<open>The application\<close>

subsection \<open>Date formatting\<close>

definition dias_semana :: "pystr list" where
  "dias_semana =
     [ustr ''LUNES'', ustr ''MARTES'', ustr ''MI'' @ [201] @ ustr ''RCOLES'', ustr ''JUEVES'',
      ustr ''VIERNES'', ustr ''S'' @ [193] @ ustr ''BADO'', ustr ''DOMINGO'']"

definition dias_semana_abrev :: "pystr list" where
  "dias_semana_abrev =
     [ustr ''LUN'', ustr ''MAR'', ustr ''MIE'', ustr ''JUE'',
      ustr ''VIE'', ustr ''SAB'', ustr ''DOM'']"

text \<open>The body of the \<open>try\<close> block, shared in shape by both formatters: parse, pick
  the name of the day from the table, format, join with a space.\<close>

definition cuerpo_formato ::
  "pystr list \<Rightarrow> (nat \<Rightarrow> nat option) \<Rightarrow> pystr \<Rightarrow> py_error + pystr" where
  "cuerpo_formato tabla nd fecha_str =
     (case strptime_ymd nd fecha_str of
        Inl e \<Rightarrow> Inl e
      | Inr fecha \<Rightarrow>
          (case py_index tabla (weekday fecha) of
             Inl e \<Rightarrow> Inl e
           | Inr dia_semana \<Rightarrow> Inr (dia_semana @ [32] @ strftime_dmY fecha)))"

text \<open>\<open>except (ValueError, TypeError): return fecha_str\<close>; any other exception
  leaves the function.\<close>

definition formatear_fecha :: "(nat \<Rightarrow> nat option) \<Rightarrow> pystr \<Rightarrow> py_error + pystr" where
  "formatear_fecha nd fecha_str =
     (case cuerpo_formato dias_semana nd fecha_str of
        Inl e \<Rightarrow> if e = ValueError \<or> e = TypeError then Inr fecha_str else Inl e
      | Inr r \<Rightarrow> Inr r)"

definition formatear_fecha_compacta :: "(nat \<Rightarrow> nat option) \<Rightarrow> pystr \<Rightarrow> py_error + pystr" where
  "formatear_fecha_compacta nd fecha_str =
     (case cuerpo_formato dias_semana_abrev nd fecha_str of
        Inl e \<Rightarrow> if e = ValueError \<or> e = TypeError then Inr fecha_str else Inl e
      | Inr r \<Rightarrow> Inr r)"

subsection \<open>Reference data\<close>

definition ESPACIOS_CURRICULARES :: "pystr list" where
  "ESPACIOS_CURRICULARES =
     [ustr ''Lengua'',
      ustr ''Matem'' @ [225] @ ustr ''tica'',
      ustr ''Lengua Extranjera'',
      ustr ''Educaci'' @ [243] @ ustr ''n F'' @ [237] @ ustr ''sica'',
      ustr ''Ciencias Sociales: Geograf'' @ [237] @ ustr ''a'',
      ustr ''Ciencias Sociales: Historia-Formaci'' @ [243] @ ustr ''n '' @ [201] @ ustr ''tica y Ciudadana'',
      ustr ''Ciencias Naturales'',
      ustr ''Educaci'' @ [243] @ ustr ''n Art'' @ [237] @ ustr ''stica (C) Artes Visuales'',
      ustr ''Educaci'' @ [243] @ ustr ''n Art'' @ [237] @ ustr ''stica (A) Teatro'',
      ustr ''Educaci'' @ [243] @ ustr ''n Art'' @ [237] @ ustr ''stica (B) M'' @ [250] @ ustr ''sica'',
      ustr ''Comunicaci'' @ [243] @ ustr ''n Social'',
      ustr ''Educaci'' @ [243] @ ustr ''n Tecnol'' @ [243] @ ustr ''gica'',
      ustr ''Lengua y Literatura'',
      ustr ''Geograf'' @ [237] @ ustr ''a'',
      ustr ''Historia'',
      ustr ''F'' @ [237] @ ustr ''sica'',
      ustr ''Biolog'' @ [237] @ ustr ''a'',
      ustr ''Pr'' @ [225] @ ustr ''cticas Art'' @ [237] @ ustr ''sticas'',
      ustr ''Comunicaci'' @ [243] @ ustr ''n'',
      ustr ''Sistemas de Informaci'' @ [243] @ ustr ''n Contable I (PP 1)'',
      ustr ''Tecnolog'' @ [237] @ ustr ''as de la Informaci'' @ [243] @ ustr ''n y la Comunicaci'' @ [243] @ ustr ''n'',
      ustr ''Procesamiento Digital'',
      ustr ''Proyecto Integrado: Ciencias Sociales'',
      ustr ''Qu'' @ [237] @ ustr ''mica'',
      ustr ''Sistemas de Informaci'' @ [243] @ ustr ''n Contable II'',
      ustr ''Administraci'' @ [243] @ ustr ''n de las Organizaciones'',
      ustr ''Econom'' @ [237] @ ustr ''a I'',
      ustr ''Derecho'',
      ustr ''Tecnolog'' @ [237] @ ustr ''a, Sociedad y Conocimiento'',
      ustr ''Producci'' @ [243] @ ustr ''n Multimedial'',
      ustr ''Funcionamiento de Sistemas Digitales'',
      ustr ''Resoluciones L'' @ [243] @ ustr ''gicas'',
      ustr ''Econom'' @ [237] @ ustr ''a Social'',
      ustr ''Formaci'' @ [243] @ ustr ''n '' @ [201] @ ustr ''tica y Ciudadana'',
      ustr ''Formaci'' @ [243] @ ustr ''n para la Vida y el Trabajo'',
      ustr ''Proyecto y Gesti'' @ [243] @ ustr ''n de Microemprendimientos'',
      ustr ''Sistemas de Informaci'' @ [243] @ ustr ''n Contable III'',
      ustr ''Teor'' @ [237] @ ustr ''a y Pr'' @ [225] @ ustr ''ctica Impositiva'',
      ustr ''Econom'' @ [237] @ ustr ''a II'',
      ustr ''Arquitectura de Hardware'',
      ustr ''Sistemas digitales y redes'',
      ustr ''Programaci'' @ [243] @ ustr ''n'',
      ustr ''Desarrollo de Sistemas Digitales'']"

definition anios_permitidos :: "pystr list" where
  "anios_permitidos =
     [ustr ''1'' @ [176] @ ustr '' a'' @ [241] @ ustr ''o'',
      ustr ''2'' @ [176] @ ustr '' a'' @ [241] @ ustr ''o'',
      ustr ''3'' @ [176] @ ustr '' a'' @ [241] @ ustr ''o'',
      ustr ''4'' @ [176] @ ustr '' a'' @ [241] @ ustr ''o'',
      ustr ''5'' @ [176] @ ustr '' a'' @ [241] @ ustr ''o'']"

subsection \<open>Validation\<close>

definition msg_fecha :: pystr where
  "msg_fecha = ustr ''Fecha inv'' @ [225] @ ustr ''lida''"

definition msg_espacio :: pystr where
  "msg_espacio = ustr ''Espacio curricular no v'' @ [225] @ ustr ''lido''"

definition msg_anio :: pystr where
  "msg_anio = ustr ''A'' @ [241] @ ustr ''o no v'' @ [225] @ ustr ''lido''"

definition msg_horario :: pystr where
  "msg_horario = ustr ''Horario no puede estar vac'' @ [237] @ ustr ''o''"

definition msg_docente :: pystr where
  "msg_docente = ustr ''Docente no puede estar vac'' @ [237] @ ustr ''o''"

text \<open>
  \<open>validar_datos_examen\<close>: the \<open>try\<close> around \<open>strptime\<close> catches \<open>ValueError\<close>
  only, so any other exception would leave the function (\<open>Inl\<close>); the result of a
  normal return is the pair \<open>(es_valido, mensaje_error)\<close>.
\<close>

definition validar_datos_examen ::
  "(nat \<Rightarrow> nat option) \<Rightarrow> pystr \<Rightarrow> pystr \<Rightarrow> pystr \<Rightarrow> pystr \<Rightarrow> pystr
     \<Rightarrow> py_error + (bool \<times> pystr)" where
  "validar_datos_examen nd fecha espacio_curricular anio horario docente =
     (case strptime_ymd nd fecha of
        Inl e \<Rightarrow> if e = ValueError then Inr (False, msg_fecha) else Inl e
      | Inr _ \<Rightarrow>
          if espacio_curricular \<notin> set ESPACIOS_CURRICULARES then Inr (False, msg_espacio)
          else if anio \<notin> set anios_permitidos then Inr (False, msg_anio)
          else if py_strip horario = [] then Inr (False, msg_horario)
          else if py_strip docente = [] then Inr (False, msg_docente)
          else Inr (True, []))"

subsection \<open>The table \<open>examenes\<close>\<close>

text \<open>
  A row of the table: the \<open>INTEGER PRIMARY KEY AUTOINCREMENT\<close> column and five
  \<open>TEXT NOT NULL\<close> columns.  The database is the list of rows in rowid order (the
  order of a table scan) and the counter of \<open>sqlite_sequence\<close>, the largest rowid the
  table has ever held.  Rowids are modelled as natural numbers; the 64-bit ceiling of
  SQLite is not part of the model.
\<close>

record examen =
  ex_id :: nat
  fecha :: pystr
  espacio_curricular :: pystr
  anio :: pystr
  horario :: pystr
  docente :: pystr

record base_datos =
  examenes :: "examen list"
  secuencia :: nat

text \<open>\<open>init_db\<close> on a database file that does not exist yet creates the empty table;
  on an existing one \<open>CREATE TABLE IF NOT EXISTS\<close> changes nothing.\<close>

definition base_vacia :: base_datos where
  "base_vacia = \<lparr>examenes = [], secuencia = 0\<rparr>"

definition init_db :: "base_datos option \<Rightarrow> base_datos" where
  "init_db archivo = (case archivo of None \<Rightarrow> base_vacia | Some db \<Rightarrow> db)"

text \<open>
  An id of the URL (\<open><int:id>\<close>) is any natural number.  Binding it as a parameter of
  a statement converts it to a 64-bit integer of SQLite: above \<open>2^63 - 1\<close> the
  \<open>sqlite3\<close> module raises \<open>OverflowError\<close> and the statement is not executed.
\<close>

definition MAX_ROWID :: nat where
  "MAX_ROWID = 9223372036854775807"

definition sqlite_bind_int :: "nat \<Rightarrow> py_error + nat" where
  "sqlite_bind_int i = (if i \<le> MAX_ROWID then Inr i else Inl OverflowError)"

text \<open>\<open>AUTOINCREMENT\<close>: one more than the largest rowid that ever existed.\<close>

definition siguiente_id :: "base_datos \<Rightarrow> nat" where
  "siguiente_id db = Suc (fold max (map ex_id (examenes db)) (secuencia db))"

text \<open>\<open>INSERT INTO examenes (fecha, espacio_curricular, anio, horario, docente)
  VALUES (?, ?, ?, ?, ?)\<close>\<close>

definition sql_insert ::
  "pystr \<Rightarrow> pystr \<Rightarrow> pystr \<Rightarrow> pystr \<Rightarrow> pystr \<Rightarrow> base_datos \<Rightarrow> base_datos" where
  "sql_insert f e a h d db =
     \<lparr>examenes = examenes db @
        [\<lparr>ex_id = siguiente_id db, fecha = f, espacio_curricular = e, anio = a,
          horario = h, docente = d\<rparr>],
      secuencia = siguiente_id db\<rparr>"

text \<open>\<open>UPDATE examenes SET fecha=?, espacio_curricular=?, anio=?, horario=?, docente=?
  WHERE id=?\<close>\<close>

definition sql_update ::
  "pystr \<Rightarrow> pystr \<Rightarrow> pystr \<Rightarrow> pystr \<Rightarrow> pystr \<Rightarrow> nat \<Rightarrow> base_datos \<Rightarrow> base_datos" where
  "sql_update f e a h d i db =
     db\<lparr>examenes :=
        map (\<lambda>r. if ex_id r = i
                  then r\<lparr>fecha := f, espacio_curricular := e, anio := a,
                         horario := h, docente := d\<rparr>
                  else r) (examenes db)\<rparr>"


text \<open>
  \<open>SELECT * FROM examenes ORDER BY fecha\<close>: the column is text, compared code point
  by code point (the order of its UTF-8 bytes); the sorter of SQLite is a merge sort
  that leaves rows with equal keys in scan order, which is what the insertion sort
  \<open>sort_key\<close> computes.
\<close>

definition sql_select_order_by_fecha :: "base_datos \<Rightarrow> examen list" where
  "sql_select_order_by_fecha db = sort_key fecha (examenes db)"

text \<open>\<open>SELECT * FROM examenes WHERE id=?\<close> with \<open>fetchone()\<close>\<close>

definition sql_select_por_id :: "nat \<Rightarrow> base_datos \<Rightarrow> examen option" where
  "sql_select_por_id i db = find (\<lambda>r. ex_id r = i) (examenes db)"

text \<open>\<open>SELECT fecha, espacio_curricular, anio, horario, docente FROM examenes
  ORDER BY fecha\<close>, each row as the list that \<open>list(ex)\<close> makes of it.\<close>

definition sql_select_columnas_order_by_fecha :: "base_datos \<Rightarrow> pystr list list" where
  "sql_select_columnas_order_by_fecha db =
     map (\<lambda>r. [fecha r, espacio_curricular r, anio r, horario r, docente r])
       (sort_key fecha (examenes db))"

subsection \<open>Requests and responses\<close>

datatype metodo = GET | POST

text \<open>\<open>request.form.get(campo)\<close> is \<open>None\<close> for a field that was not sent.\<close>

record formulario =
  form_fecha :: "pystr option"
  form_espacio_curricular :: "pystr option"
  form_anio :: "pystr option"
  form_horario :: "pystr option"
  form_docente :: "pystr option"

record documento_pdf =
  titulo :: pystr
  datos_tabla :: "pystr list list"
  anchos_columna :: "nat list"
  pie_pagina :: pystr

datatype respuesta =
    Plantilla_index "examen list"
  | Plantilla_agregar "pystr list"
  | Plantilla_editar examen "pystr list"
  | Plantilla_error pystr nat
  | Redireccion_index
  | Descarga_pdf documento_pdf
  | Descarga_csv pystr

text \<open>Truth value of a form field: \<open>None\<close> and the empty string are false.\<close>

definition verdadero :: "pystr option \<Rightarrow> bool" where
  "verdadero v \<longleftrightarrow> (case v of None \<Rightarrow> False | Some s \<Rightarrow> s \<noteq> [])"

definition texto :: "pystr option \<Rightarrow> pystr" where
  "texto v = (case v of None \<Rightarrow> [] | Some s \<Rightarrow> s)"

text \<open>The handler of error 500, which answers a request whose view raised.\<close>

definition error_servidor :: respuesta where
  "error_servidor = Plantilla_error (ustr ''Error interno del servidor'') 500"

definition faltan_datos :: respuesta where
  "faltan_datos =
     Plantilla_error (ustr ''Faltan datos. Por favor complete todos los campos.'') 400"

definition datos_invalidos :: "pystr \<Rightarrow> respuesta" where
  "datos_invalidos mensaje_error =
     Plantilla_error (ustr ''Datos inv'' @ [225] @ ustr ''lidos: '' @ mensaje_error) 400"

text \<open>A \<open>for\<close> loop that appends \<open>f x\<close> for each element and stops at the first
  exception.\<close>

fun py_map :: "('a \<Rightarrow> py_error + 'b) \<Rightarrow> 'a list \<Rightarrow> py_error + 'b list" where
  "py_map f [] = Inr []"
| "py_map f (x # xs) =
     (case f x of
        Inl e \<Rightarrow> Inl e
      | Inr y \<Rightarrow> (case py_map f xs of Inl e \<Rightarrow> Inl e | Inr ys \<Rightarrow> Inr (y # ys)))"

subsection \<open>Views\<close>

text \<open>\<open>index\<close>: every row of the query with position 1, the date, replaced by its
  long format.\<close>

definition fila_formateada :: "(nat \<Rightarrow> nat option) \<Rightarrow> examen \<Rightarrow> py_error + examen" where
  "fila_formateada nd ex =
     (case formatear_fecha nd (fecha ex) of
        Inl e \<Rightarrow> Inl e
      | Inr fecha_formateada \<Rightarrow> Inr (ex\<lparr>fecha := fecha_formateada\<rparr>))"

definition index :: "(nat \<Rightarrow> nat option) \<Rightarrow> base_datos \<Rightarrow> respuesta" where
  "index nd db =
     (case py_map (fila_formateada nd) (sql_select_order_by_fecha db) of
        Inl e \<Rightarrow> error_servidor
      | Inr examenes_formateados \<Rightarrow> Plantilla_index examenes_formateados)"

text \<open>\<open>agregar\<close>: the form on GET; on POST the check that no field is missing or
  empty, the validation, the insertion and the redirection.\<close>

definition agregar ::
  "(nat \<Rightarrow> nat option) \<Rightarrow> metodo \<Rightarrow> formulario \<Rightarrow> base_datos \<Rightarrow> respuesta \<times> base_datos" where
  "agregar nd m form db =
     (if m = POST then
        if \<not> (verdadero (form_fecha form) \<and> verdadero (form_espacio_curricular form) \<and>
               verdadero (form_anio form) \<and> verdadero (form_horario form) \<and>
               verdadero (form_docente form))
        then (faltan_datos, db)
        else
          (case validar_datos_examen nd (texto (form_fecha form))
                  (texto (form_espacio_curricular form)) (texto (form_anio form))
                  (texto (form_horario form)) (texto (form_docente form)) of
             Inl e \<Rightarrow> (error_servidor, db)
           | Inr (es_valido, mensaje_error) \<Rightarrow>
               if \<not> es_valido then (datos_invalidos mensaje_error, db)
               else (Redireccion_index,
                     sql_insert (texto (form_fecha form)) (texto (form_espacio_curricular form))
                       (texto (form_anio form)) (texto (form_horario form))
                       (texto (form_docente form)) db))
      else (Plantilla_agregar ESPACIOS_CURRICULARES, db))"

text \<open>\<open>editar\<close>: on POST the same checks, then the UPDATE and the redirection; on GET
  the row is read and a missing row answers 404.  In both branches an id that cannot be
  bound raises in \<open>execute\<close>; nothing catches it, the table is not touched and the
  request is answered by the handler of error 500.\<close>

definition editar ::
  "(nat \<Rightarrow> nat option) \<Rightarrow> metodo \<Rightarrow> nat \<Rightarrow> formulario \<Rightarrow> base_datos
     \<Rightarrow> respuesta \<times> base_datos" where
  "editar nd m i form db =
     (if m = POST then
        if \<not> (verdadero (form_fecha form) \<and> verdadero (form_espacio_curricular form) \<and>
               verdadero (form_anio form) \<and> verdadero (form_horario form) \<and>
               verdadero (form_docente form))
        then (faltan_datos, db)
        else
          (case validar_datos_examen nd (texto (form_fecha form))
                  (texto (form_espacio_curricular form)) (texto (form_anio form))
                  (texto (form_horario form)) (texto (form_docente form)) of
             Inl e \<Rightarrow> (error_servidor, db)
           | Inr (es_valido, mensaje_error) \<Rightarrow>
               if \<not> es_valido then (datos_invalidos mensaje_error, db)
               else
                 (case sqlite_bind_int i of
                    Inl e \<Rightarrow> (error_servidor, db)
                  | Inr k \<Rightarrow>
                      (Redireccion_index,
                       sql_update (texto (form_fecha form))
                         (texto (form_espacio_curricular form)) (texto (form_anio form))
                         (texto (form_horario form)) (texto (form_docente form)) k db)))
      else
        (case sqlite_bind_int i of
           Inl e \<Rightarrow> (error_servidor, db)
         | Inr k \<Rightarrow>
             (case sql_select_por_id k db of
                None \<Rightarrow> (Plantilla_error (ustr ''Examen no encontrado'') 404, db)
              | Some ex \<Rightarrow> (Plantilla_editar ex ESPACIOS_CURRICULARES, db))))"


subsection \<open>Export\<close>

text \<open>
  \<open>csv.writer\<close> with the default dialect: fields joined by a comma, a field that
  contains the delimiter, the quote character or a character of the line terminator is
  put in double quotes with its quotes doubled, a record that would be empty is written
  as a pair of quotes, and every record ends with CR LF.
\<close>

definition csv_especial :: "nat \<Rightarrow> bool" where
  "csv_especial c \<longleftrightarrow> c = 44 \<or> c = 34 \<or> c = 13 \<or> c = 10"

definition csv_campo :: "pystr \<Rightarrow> pystr" where
  "csv_campo campo =
     (if list_ex csv_especial campo
      then [34] @ concat (map (\<lambda>c. if c = 34 then [34, 34] else [c]) campo) @ [34]
      else campo)"

fun csv_unir :: "pystr list \<Rightarrow> pystr" where
  "csv_unir [] = []"
| "csv_unir [campo] = campo"
| "csv_unir (campo # resto) = campo @ [44] @ csv_unir resto"

definition csv_writerow :: "pystr list \<Rightarrow> pystr" where
  "csv_writerow fila =
     (let registro = csv_unir (map csv_campo fila)
      in (if fila \<noteq> [] \<and> registro = [] then [34, 34] else registro) @ [13, 10])"

definition encabezado :: "pystr list" where
  "encabezado =
     [ustr ''Fecha'', ustr ''Espacio Curricular'', ustr ''A'' @ [241] @ ustr ''o'',
      ustr ''Horario'', ustr ''Docente'']"

text \<open>\<open>ex_lista[0] = formatear_fecha_compacta(ex_lista[0])\<close>\<close>

definition fila_exportada :: "(nat \<Rightarrow> nat option) \<Rightarrow> pystr list \<Rightarrow> py_error + pystr list" where
  "fila_exportada nd ex_lista =
     (case ex_lista of
        [] \<Rightarrow> Inl IndexError
      | f # resto \<Rightarrow>
          (case formatear_fecha_compacta nd f of
             Inl e \<Rightarrow> Inl e
           | Inr compacta \<Rightarrow> Inr (compacta # resto)))"

text \<open>
  \<open>exportar_pdf\<close>.  \<open>reportlab\<close> is the flag \<open>REPORTLAB_AVAILABLE\<close>, \<open>ahora\<close> the
  time of the export as \<open>strftime("%d/%m/%Y %H:%M")\<close> prints it, and \<open>fallo\<close> the
  text of an exception raised inside the \<open>try\<close> block by the temporary file or the
  renderer, if there is one.  The PDF is represented by what is handed to the document
  builder: the title, the rows of the table, the column widths and the footer.
\<close>

definition exportar_pdf ::
  "(nat \<Rightarrow> nat option) \<Rightarrow> bool \<Rightarrow> pystr \<Rightarrow> pystr option \<Rightarrow> base_datos \<Rightarrow> respuesta" where
  "exportar_pdf nd reportlab ahora fallo db =
     (case py_map (fila_exportada nd) (sql_select_columnas_order_by_fecha db) of
        Inl e \<Rightarrow> error_servidor
      | Inr examenes_formateados \<Rightarrow>
          if reportlab then
            (case fallo of
               Some e \<Rightarrow> Plantilla_error (ustr ''Error al generar PDF: '' @ e) 500
             | None \<Rightarrow>
                 Descarga_pdf
                   \<lparr>titulo = ustr ''Cronograma de Ex'' @ [225] @ ustr ''menes'',
                    datos_tabla = encabezado # examenes_formateados,
                    anchos_columna = [90, 150, 50, 70, 90],
                    pie_pagina =
                      ustr ''<i>Exportado el '' @ ahora @
                      ustr '' - Total de ex'' @ [225] @ ustr ''menes: '' @
                      py_str_nat (length examenes_formateados) @ ustr ''</i>''\<rparr>)
          else
            (case fallo of
               Some e \<Rightarrow> Plantilla_error (ustr ''Error al generar CSV: '' @ e) 500
             | None \<Rightarrow>
                 Descarga_csv
                   (csv_writerow encabezado @ concat (map csv_writerow examenes_formateados))))"

text \<open>The lines of a text whose lines end with CR LF, to read the exported file.\<close>

fun lineas_crlf :: "pystr \<Rightarrow> pystr \<Rightarrow> pystr list" where
  "lineas_crlf acc [] = (if acc = [] then [] else [rev acc])"
| "lineas_crlf acc (c # cs) =
     (case cs of
        [] \<Rightarrow> [rev (c # acc)]
      | x # r \<Rightarrow>
          if c = 13 \<and> x = 10 then rev acc # lineas_crlf [] r
          else lineas_crlf (c # acc) cs)"

subsection \<open>Example data\<close>

text \<open>The values that the unit tests of the application submit.\<close>

definition ej_matematica :: pystr where
  "ej_matematica = ustr ''Matem'' @ [225] @ ustr ''tica''"

definition ej_lengua :: pystr where
  "ej_lengua = ustr ''Lengua''"

definition ej_primer_anio :: pystr where
  "ej_primer_anio = ustr ''1'' @ [176] @ ustr '' a'' @ [241] @ ustr ''o''"

definition ej_segundo_anio :: pystr where
  "ej_segundo_anio = ustr ''2'' @ [176] @ ustr '' a'' @ [241] @ ustr ''o''"

definition ej_diaz :: pystr where
  "ej_diaz = ustr ''DIAZ, PAMELA''"

definition ej_gomez :: pystr where
  "ej_gomez = ustr ''GOMEZ, CARLOS''"

definition datos ::
  "pystr \<Rightarrow> pystr \<Rightarrow> pystr \<Rightarrow> pystr \<Rightarrow> pystr \<Rightarrow> formulario" where
  "datos f e a h d =
     \<lparr>form_fecha = Some f, form_espacio_curricular = Some e, form_anio = Some a,
      form_horario = Some h, form_docente = Some d\<rparr>"

text \<open>The database after three exams are added to an empty one, with the dates
  2025-08-23, 2025-08-22 and 2025-08-22 in this order.\<close>

definition tres_examenes :: "(nat \<Rightarrow> nat option) \<Rightarrow> base_datos" where
  "tres_examenes nd =
     snd (agregar nd POST
            (datos (ustr ''2025-08-22'') ej_lengua ej_segundo_anio (ustr ''14:00'') ej_gomez)
       (snd (agregar nd POST
               (datos (ustr ''2025-08-22'') ej_matematica ej_primer_anio (ustr ''09:30'') ej_diaz)
          (snd (agregar nd POST
                  (datos (ustr ''2025-08-23'') ej_lengua ej_segundo_anio (ustr ''14:00'') ej_gomez)
             base_vacia)))))"

text \<open>The database after the exam of the end-to-end scenario is added to an empty
  one, and the text of a CSV download.\<close>

definition un_examen :: "(nat \<Rightarrow> nat option) \<Rightarrow> base_datos" where
  "un_examen nd =
     snd (agregar nd POST
            (datos (ustr ''2025-09-12'') ej_matematica ej_primer_anio (ustr ''09:00 - 11:00'')
               ej_diaz)
            base_vacia)"

fun texto_csv :: "respuesta \<Rightarrow> pystr" where
  "texto_csv (Descarga_csv t) = t"
| "texto_csv _ = []"

section \<open>Properties\<close>

subsection \<open>Exceptions of the library functions\<close>

lemma py_int_acc_error: "py_int_acc nd acc s = Inl e \<Longrightarrow> e = ValueError"
  by (induction s arbitrary: acc) (auto split: option.splits)

lemma py_int_error: "py_int nd s = Inl e \<Longrightarrow> e = ValueError"
  by (auto simp: py_int_def Let_def split: if_splits dest: py_int_acc_error)

lemma strptime_ymd_error: "strptime_ymd nd s = Inl e \<Longrightarrow> e = ValueError"
  by (auto simp: strptime_ymd_def split: list.splits if_splits sum.splits
           dest: py_int_error)

lemma weekday_menor_7: "weekday f < 7"
  by (simp add: weekday_def)

lemma cuerpo_formato_error:
  "length tabla = 7 \<Longrightarrow> cuerpo_formato tabla nd s = Inl e \<Longrightarrow> e = ValueError"
  by (auto simp: cuerpo_formato_def py_index_def weekday_menor_7
           split: sum.splits if_splits dest: strptime_ymd_error)

lemma cuerpo_formato_parseada:
  "length tabla = 7 \<Longrightarrow> strptime_ymd nd s = Inr f \<Longrightarrow>
   cuerpo_formato tabla nd s = Inr (tabla ! weekday f @ [32] @ strftime_dmY f)"
  by (simp add: cuerpo_formato_def py_index_def weekday_menor_7)

lemma cuerpo_formato_no_parseada:
  "strptime_ymd nd s = Inl e \<Longrightarrow> cuerpo_formato tabla nd s = Inl e"
  by (simp add: cuerpo_formato_def)

lemma length_dias_semana: "length dias_semana = 7"
  by (simp add: dias_semana_def)

lemma length_dias_semana_abrev: "length dias_semana_abrev = 7"
  by (simp add: dias_semana_abrev_def)

lemma formatear_fecha_parseada:
  "strptime_ymd nd s = Inr f \<Longrightarrow>
   formatear_fecha nd s = Inr (dias_semana ! weekday f @ [32] @ strftime_dmY f)"
  by (simp add: formatear_fecha_def cuerpo_formato_parseada length_dias_semana)

lemma formatear_fecha_compacta_parseada:
  "strptime_ymd nd s = Inr f \<Longrightarrow>
   formatear_fecha_compacta nd s = Inr (dias_semana_abrev ! weekday f @ [32] @ strftime_dmY f)"
  by (simp add: formatear_fecha_compacta_def cuerpo_formato_parseada length_dias_semana_abrev)

lemma formatear_fecha_no_parseada:
  "isl (strptime_ymd nd s) \<Longrightarrow> formatear_fecha nd s = Inr s"
  by (cases "strptime_ymd nd s")
     (auto simp: formatear_fecha_def cuerpo_formato_no_parseada dest: strptime_ymd_error)

lemma formatear_fecha_compacta_no_parseada:
  "isl (strptime_ymd nd s) \<Longrightarrow> formatear_fecha_compacta nd s = Inr s"
  by (cases "strptime_ymd nd s")
     (auto simp: formatear_fecha_compacta_def cuerpo_formato_no_parseada dest: strptime_ymd_error)

lemma formatear_fecha_total: "\<exists>r. formatear_fecha nd s = Inr r"
  by (cases "strptime_ymd nd s")
     (simp_all add: formatear_fecha_parseada formatear_fecha_no_parseada)

lemma formatear_fecha_compacta_total: "\<exists>r. formatear_fecha_compacta nd s = Inr r"
  by (cases "strptime_ymd nd s")
     (simp_all add: formatear_fecha_compacta_parseada formatear_fecha_compacta_no_parseada)


text \<open>The definitions that evaluate the date functions on a concrete string.\<close>

lemmas eval_defs = formatear_fecha_def formatear_fecha_compacta_def cuerpo_formato_def strptime_ymd_def re_match_ymd_def ustr_def grupo_Y_def grupo_m_def grupo_d_def seguido_def alternativa_def literal_def en_rango_def es_digito_def valor_digito_def py_int_def py_strip_def py_isspace_def fecha_valida_def days_in_month_def DAYS_IN_MONTH_def is_leap_def py_index_def dias_semana_def dias_semana_abrev_def weekday_def toordinal_def ymd2ord_def days_before_year_def days_before_month_def strftime_dmY_def dos_digitos_def cuatro_digitos_def nd_ejemplo_def py_str_nat.simps


subsection \<open>White space and decimal digits\<close>

lemma py_strip_vacio: "py_strip s = [] \<longleftrightarrow> (\<forall>c\<in>set s. py_isspace c)"
proof
  assume v: "py_strip s = []"
  show "\<forall>c\<in>set s. py_isspace c"
  proof (rule ccontr)
    assume "\<not> (\<forall>c\<in>set s. py_isspace c)"
    then have ne: "dropWhile py_isspace s \<noteq> []"
      by (simp add: dropWhile_eq_Nil_conv)
    then have "\<not> py_isspace (hd (dropWhile py_isspace s))"
      by (rule hd_dropWhile)
    moreover have "hd (dropWhile py_isspace s) \<in> set (rev (dropWhile py_isspace s))"
      using ne by simp
    ultimately have "dropWhile py_isspace (rev (dropWhile py_isspace s)) \<noteq> []"
      by (auto simp: dropWhile_eq_Nil_conv)
    with v show False by (simp add: py_strip_def)
  qed
next
  assume "\<forall>c\<in>set s. py_isspace c"
  then have "dropWhile py_isspace s = []"
    by (simp only: dropWhile_eq_Nil_conv)
  then show "py_strip s = []" by (simp add: py_strip_def del: dropWhile_eq_Nil_conv)
qed

lemma days_in_month_cota: "1 \<le> m \<Longrightarrow> m \<le> 12 \<Longrightarrow> days_in_month y m \<le> 31"
proof -
  assume "1 \<le> m" "m \<le> 12"
  then have "m \<in> {1,2,3,4,5,6,7,8,9,10,11,12}" by (simp; arith)
  then show ?thesis
    by (auto simp: days_in_month_def DAYS_IN_MONTH_def)
qed




lemma dos_cifras: "(n::nat) < 100 \<Longrightarrow> 10 * (n div 10 mod 10) + n mod 10 = n"
proof -
  assume "n < 100"
  then have "n div 10 < 10" by simp
  then have "n div 10 mod 10 = n div 10" by simp
  then show ?thesis by simp
qed

lemma cuatro_cifras:
  "(n::nat) < 10000 \<Longrightarrow>
   10 * (10 * (10 * (n div 1000 mod 10) + n div 100 mod 10) + n div 10 mod 10) + n mod 10 = n"
proof -
  assume n: "n < 10000"
  have c: "n div 1000 = n div 100 div 10" and b: "n div 100 = n div 10 div 10"
    by (simp_all add: div_mult2_eq)
  from n have "n div 1000 < 10" by simp
  then have "n div 1000 mod 10 = n div 1000" by simp
  then have "10 * (n div 1000 mod 10) + n div 100 mod 10 = n div 100"
    by (simp add: c)
  then have e1: "10 * (n div 1000 mod 10) + n div 100 mod 10 = n div 100" .
  have e2: "10 * (n div 100) + n div 10 mod 10 = n div 10"
    by (simp add: b)
  have e3: "10 * (n div 10) + n mod 10 = n" by simp
  show ?thesis by (simp only: e1 e2 e3)
qed














subsection \<open>The calendar\<close>







subsection \<open>Dates in ISO form\<close>

lemma append_le_misma_longitud:
  fixes xs ys :: "nat list"
  shows "length xs = length ys \<Longrightarrow>
         (xs @ us \<le> ys @ vs) = (xs < ys \<or> (xs = ys \<and> us \<le> vs))"
  by (induction xs ys rule: list_induct2) auto

lemma decena_menor:
  fixes x y x' y' :: nat
  shows "y < 10 \<Longrightarrow> y' < 10 \<Longrightarrow>
         (10 * x + y < 10 * x' + y') = (x < x' \<or> (x = x' \<and> y < y'))"
  by (cases x x' rule: linorder_cases) auto

lemma decena_igual:
  fixes x y x' y' :: nat
  shows "y < 10 \<Longrightarrow> y' < 10 \<Longrightarrow> (10 * x + y = 10 * x' + y') = (x = x' \<and> y = y')"
  by (cases x x' rule: linorder_cases) auto

lemma dos_cifras_orden:
  fixes q r q' r' :: nat
  assumes "r < 10" and "r' < 10"
  shows "([48 + q, 48 + r] < [48 + q', 48 + r']) = (10 * q + r < 10 * q' + r')"
    and "([48 + q, 48 + r] = [48 + q', 48 + r']) = (10 * q + r = 10 * q' + r')"
  using assms by (simp_all only: decena_menor decena_igual) auto

lemma cuatro_cifras_orden:
  fixes a b c d a' b' c' d' :: nat
  assumes "b < 10" "c < 10" "d < 10" "b' < 10" "c' < 10" "d' < 10"
  shows "([48 + a, 48 + b, 48 + c, 48 + d] < [48 + a', 48 + b', 48 + c', 48 + d']) =
           (10 * (10 * (10 * a + b) + c) + d < 10 * (10 * (10 * a' + b') + c') + d')"
    and "([48 + a, 48 + b, 48 + c, 48 + d] = [48 + a', 48 + b', 48 + c', 48 + d']) =
           (10 * (10 * (10 * a + b) + c) + d = 10 * (10 * (10 * a' + b') + c') + d')"
  using assms by (simp_all only: decena_menor decena_igual) auto

lemma dos_digitos_orden:
  assumes "a < 100" and "b < 100"
  shows "(dos_digitos a < dos_digitos b) = (a < b)" and "(dos_digitos a = dos_digitos b) = (a = b)"
proof -
  have la: "a mod 10 < 10" and lb: "b mod 10 < 10" by simp_all
  show "(dos_digitos a < dos_digitos b) = (a < b)"
    unfolding dos_digitos_def dos_cifras_orden (1) [OF la lb]
      dos_cifras [OF assms(1)] dos_cifras [OF assms(2)] ..
  show "(dos_digitos a = dos_digitos b) = (a = b)"
    unfolding dos_digitos_def dos_cifras_orden (2) [OF la lb]
      dos_cifras [OF assms(1)] dos_cifras [OF assms(2)] ..
qed

lemma cuatro_digitos_orden:
  assumes "a < 10000" and "b < 10000"
  shows "(cuatro_digitos a < cuatro_digitos b) = (a < b)"
    and "(cuatro_digitos a = cuatro_digitos b) = (a = b)"
proof -
  have l: "a div 100 mod 10 < 10" "a div 10 mod 10 < 10" "a mod 10 < 10"
    "b div 100 mod 10 < 10" "b div 10 mod 10 < 10" "b mod 10 < 10" by simp_all
  show "(cuatro_digitos a < cuatro_digitos b) = (a < b)"
    unfolding cuatro_digitos_def cuatro_cifras_orden (1) [OF l]
      cuatro_cifras [OF assms(1)] cuatro_cifras [OF assms(2)] ..
  show "(cuatro_digitos a = cuatro_digitos b) = (a = b)"
    unfolding cuatro_digitos_def cuatro_cifras_orden (2) [OF l]
      cuatro_cifras [OF assms(1)] cuatro_cifras [OF assms(2)] ..
qed


lemma isoformat_orden:
  assumes "year f < 10000" "year g < 10000" "month f < 100" "month g < 100"
    "day f < 100" "day g < 100"
  shows "(isoformat f \<le> isoformat g) =
           (year f < year g \<or>
            (year f = year g \<and>
              (month f < month g \<or> (month f = month g \<and> day f \<le> day g))))"
proof -
  have l4: "length (cuatro_digitos (year f)) = length (cuatro_digitos (year g))"
    by (simp add: cuatro_digitos_def)
  have l2: "length (dos_digitos (month f)) = length (dos_digitos (month g))"
    by (simp add: dos_digitos_def)
  have d: "(dos_digitos (day f) \<le> dos_digitos (day g)) = (day f \<le> day g)"
    using dos_digitos_orden [OF assms(5) assms(6)] by (auto simp: le_less)
  show ?thesis
    unfolding isoformat_def
    by (simp only: append_le_misma_longitud [OF l4] append_le_misma_longitud [OF l2]
          append_Cons append_Nil Cons_le_Cons d
          cuatro_digitos_orden [OF assms(1) assms(2)] dos_digitos_orden [OF assms(3) assms(4)])
       simp
qed







lemma isoformat_no_posterior:
  assumes "fecha_valida (year f) (month f) (day f)" and "fecha_valida (year g) (month g) (day g)"
  shows "(isoformat f \<le> isoformat g) = no_posterior f g"
proof -
  have c: "year h < 10000 \<and> month h < 100 \<and> day h < 100"
    if v: "fecha_valida (year h) (month h) (day h)" for h
  proof -
    from v have "day h \<le> 31"
      using days_in_month_cota [of "month h" "year h"] by (simp add: fecha_valida_def)
    with v show ?thesis by (simp add: fecha_valida_def)
  qed
  show ?thesis
    using c [OF assms(1)] c [OF assms(2)]
    by (simp add: isoformat_orden no_posterior_def)
qed

subsection \<open>The date formatters\<close>




text \<open>
  C7.  A string that \<open>strptime\<close> does not parse is returned unchanged by both
  formatters, and for every string both formatters return a string: no exception
  leaves them.
\<close>

theorem formateadores_tolerantes:
  "(isl (strptime_ymd nd s) \<longrightarrow>
      formatear_fecha nd s = Inr s \<and> formatear_fecha_compacta nd s = Inr s) \<and>
   (\<exists>r. formatear_fecha nd s = Inr r) \<and> (\<exists>r. formatear_fecha_compacta nd s = Inr r)"
  by (simp add: formatear_fecha_no_parseada formatear_fecha_compacta_no_parseada
        formatear_fecha_total formatear_fecha_compacta_total)

theorem formateadores_tolerantes_witness:
  "isl (strptime_ymd nd_ejemplo (ustr ''fecha-invalida'')) \<and>
   formatear_fecha nd_ejemplo (ustr ''fecha-invalida'') = Inr (ustr ''fecha-invalida'') \<and>
   formatear_fecha_compacta nd_ejemplo (ustr ''fecha-invalida'') = Inr (ustr ''fecha-invalida'')"
proof -
  have h: "isl (strptime_ymd nd_ejemplo (ustr ''fecha-invalida''))"
    by (simp add: eval_defs)
  show ?thesis
    using h formateadores_tolerantes [of nd_ejemplo "ustr ''fecha-invalida''"] by blast
qed

subsection \<open>The validator\<close>

lemma validar_datos_examen_eq:
  "validar_datos_examen nd f e a h d =
     (if isl (strptime_ymd nd f) then Inr (False, msg_fecha)
      else if e \<notin> set ESPACIOS_CURRICULARES then Inr (False, msg_espacio)
      else if a \<notin> set anios_permitidos then Inr (False, msg_anio)
      else if py_strip h = [] then Inr (False, msg_horario)
      else if py_strip d = [] then Inr (False, msg_docente)
      else Inr (True, []))"
  by (cases "strptime_ymd nd f")
     (auto simp: validar_datos_examen_def dest: strptime_ymd_error)

lemmas msg_defs = msg_fecha_def msg_espacio_def msg_anio_def msg_horario_def msg_docente_def

text \<open>
  C1.  The validator applies the five rules in the order date, subject, year, time slot,
  teacher and answers with the message of the first rule that fails (the five messages
  are different from each other); it answers \<open>(True, "")\<close> exactly when the date
  parses, the subject is in the catalogue, the year is one of the five labels, and time
  slot and teacher are not empty after \<open>strip\<close>, that is contain a character that is
  not white space.
\<close>

theorem validar_orden_de_reglas:
  "validar_datos_examen nd f e a h d =
     (if isl (strptime_ymd nd f) then Inr (False, msg_fecha)
      else if e \<notin> set ESPACIOS_CURRICULARES then Inr (False, msg_espacio)
      else if a \<notin> set anios_permitidos then Inr (False, msg_anio)
      else if py_strip h = [] then Inr (False, msg_horario)
      else if py_strip d = [] then Inr (False, msg_docente)
      else Inr (True, [])) \<and>
   (validar_datos_examen nd f e a h d = Inr (True, []) \<longleftrightarrow>
      (\<exists>fh. strptime_ymd nd f = Inr fh) \<and> e \<in> set ESPACIOS_CURRICULARES \<and>
      a \<in> set anios_permitidos \<and> (\<exists>c\<in>set h. \<not> py_isspace c) \<and>
      (\<exists>c\<in>set d. \<not> py_isspace c)) \<and>
   distinct [msg_fecha, msg_espacio, msg_anio, msg_horario, msg_docente] \<and>
   length anios_permitidos = 5 \<and> distinct anios_permitidos"
proof (intro conjI)
  show "validar_datos_examen nd f e a h d =
     (if isl (strptime_ymd nd f) then Inr (False, msg_fecha)
      else if e \<notin> set ESPACIOS_CURRICULARES then Inr (False, msg_espacio)
      else if a \<notin> set anios_permitidos then Inr (False, msg_anio)
      else if py_strip h = [] then Inr (False, msg_horario)
      else if py_strip d = [] then Inr (False, msg_docente)
      else Inr (True, []))"
    by (rule validar_datos_examen_eq)
  have p: "(\<not> isl (strptime_ymd nd f)) = (\<exists>fh. strptime_ymd nd f = Inr fh)"
    by (cases "strptime_ymd nd f") simp_all
  show "validar_datos_examen nd f e a h d = Inr (True, []) \<longleftrightarrow>
      (\<exists>fh. strptime_ymd nd f = Inr fh) \<and> e \<in> set ESPACIOS_CURRICULARES \<and>
      a \<in> set anios_permitidos \<and> (\<exists>c\<in>set h. \<not> py_isspace c) \<and>
      (\<exists>c\<in>set d. \<not> py_isspace c)"
    unfolding validar_datos_examen_eq p [symmetric]
    by (simp add: py_strip_vacio)
  show "distinct [msg_fecha, msg_espacio, msg_anio, msg_horario, msg_docente]"
    by (simp add: msg_defs ustr_def)
  show "length anios_permitidos = 5" by (simp add: anios_permitidos_def)
  show "distinct anios_permitidos" by (simp add: anios_permitidos_def ustr_def)
qed

lemmas ej_defs = ej_matematica_def ej_lengua_def ej_primer_anio_def ej_segundo_anio_def
  ej_diaz_def ej_gomez_def

lemma ej_en_catalogo:
  "ej_matematica \<in> set ESPACIOS_CURRICULARES" "ej_lengua \<in> set ESPACIOS_CURRICULARES"
  by (simp_all add: ej_defs ESPACIOS_CURRICULARES_def ustr_def)

lemma ej_anios_permitidos:
  "ej_primer_anio \<in> set anios_permitidos" "ej_segundo_anio \<in> set anios_permitidos"
  by (simp_all add: ej_defs anios_permitidos_def ustr_def)

lemma ej_no_vacios:
  "py_strip (ustr ''09:30'') \<noteq> []" "py_strip (ustr ''14:00'') \<noteq> []"
  "py_strip (ustr ''09:00 - 11:00'') \<noteq> []" "py_strip ej_diaz \<noteq> []" "py_strip ej_gomez \<noteq> []"
  by (simp_all add: ej_defs py_strip_def py_isspace_def ustr_def)

lemma ej_fechas:
  "strptime_ymd nd (ustr ''2025-08-22'') = Inr \<lparr>year = 2025, month = 8, day = 22\<rparr>"
  "strptime_ymd nd (ustr ''2025-08-23'') = Inr \<lparr>year = 2025, month = 8, day = 23\<rparr>"
  "strptime_ymd nd (ustr ''2025-09-12'') = Inr \<lparr>year = 2025, month = 9, day = 12\<rparr>"
  by (simp_all add: eval_defs)

lemma ej_validos:
  "validar_datos_examen nd (ustr ''2025-08-22'') ej_matematica ej_primer_anio
     (ustr ''09:30'') ej_diaz = Inr (True, [])"
  "validar_datos_examen nd (ustr ''2025-08-23'') ej_lengua ej_segundo_anio
     (ustr ''14:00'') ej_gomez = Inr (True, [])"
  "validar_datos_examen nd (ustr ''2025-09-12'') ej_matematica ej_primer_anio
     (ustr ''09:00 - 11:00'') ej_diaz = Inr (True, [])"
  by (simp_all add: validar_datos_examen_def ej_fechas ej_en_catalogo ej_anios_permitidos
        ej_no_vacios)

theorem validar_orden_de_reglas_witness:
  "validar_datos_examen nd_ejemplo (ustr ''2025-08-22'') ej_matematica ej_primer_anio
     (ustr ''09:30'') ej_diaz = Inr (True, []) \<and>
   validar_datos_examen nd_ejemplo (ustr ''2025-08-22'') ej_diaz (ustr ''6'')
     (ustr '' '') [] = Inr (False, msg_espacio) \<and>
   validar_datos_examen nd_ejemplo (ustr ''2025-08-22'') ej_matematica ej_primer_anio
     (ustr '' '') [] = Inr (False, msg_horario)"
proof -
  have a: "\<not> isl (strptime_ymd nd_ejemplo (ustr ''2025-08-22''))"
    by (simp add: ej_fechas)
  have b: "ej_diaz \<notin> set ESPACIOS_CURRICULARES"
    by (simp add: ej_defs ESPACIOS_CURRICULARES_def ustr_def)
  have c: "py_strip (ustr '' '') = []"
    by (simp add: py_strip_def py_isspace_def ustr_def)
  show ?thesis
    using validar_orden_de_reglas [of nd_ejemplo "ustr ''2025-08-22''" ej_matematica
        ej_primer_anio "ustr ''09:30''" ej_diaz]
      validar_orden_de_reglas [of nd_ejemplo "ustr ''2025-08-22''" ej_diaz "ustr ''6''"
        "ustr '' ''" "[]"]
      validar_orden_de_reglas [of nd_ejemplo "ustr ''2025-08-22''" ej_matematica
        ej_primer_anio "ustr '' ''" "[]"]
    by (simp only: a b c ej_en_catalogo ej_anios_permitidos ej_no_vacios if_True if_False
          not_True_eq_False not_False_eq_True simp_thms)
qed

text \<open>
  C8.  For every five strings the validator returns a pair of a truth value and a
  message: no exception leaves it.  A date that \<open>strptime\<close> rejects is answered by
  the ordinary result \<open>(False, msg_fecha)\<close>.
\<close>

theorem validar_nunca_lanza:
  "(\<exists>es_valido mensaje. validar_datos_examen nd f e a h d = Inr (es_valido, mensaje)) \<and>
   (isl (strptime_ymd nd f) \<longrightarrow>
      validar_datos_examen nd f e a h d = Inr (False, msg_fecha))"
  by (auto simp: validar_datos_examen_eq)

theorem validar_nunca_lanza_witness:
  "isl (strptime_ymd nd_ejemplo (ustr ''fecha-invalida'')) \<and>
   validar_datos_examen nd_ejemplo (ustr ''fecha-invalida'') [] (ustr ''x'') (ustr '' '') []
     = Inr (False, ustr ''Fecha inv'' @ [225] @ ustr ''lida'')"
proof -
  have h: "isl (strptime_ymd nd_ejemplo (ustr ''fecha-invalida''))"
    by (simp add: eval_defs)
  show ?thesis
    using h validar_nunca_lanza [of nd_ejemplo "ustr ''fecha-invalida''" "[]" "ustr ''x''"
        "ustr '' ''" "[]"]
    by (simp add: msg_fecha_def)
qed

subsection \<open>The table and the views\<close>

lemma py_map_total:
  "(\<And>x. x \<in> set xs \<Longrightarrow> f x = Inr (g x)) \<Longrightarrow> py_map f xs = Inr (map g xs)"
  by (induction xs) simp_all

lemma fila_formateada_total:
  "fila_formateada nd ex = Inr (ex\<lparr>fecha := projr (formatear_fecha nd (fecha ex))\<rparr>)"
  using formatear_fecha_total [of nd "fecha ex"]
  by (auto simp: fila_formateada_def)

lemma index_eq:
  "index nd db =
     Plantilla_index
       (map (\<lambda>ex. ex\<lparr>fecha := projr (formatear_fecha nd (fecha ex))\<rparr>)
          (sql_select_order_by_fecha db))"
  by (simp add: index_def py_map_total [OF fila_formateada_total])

lemma fila_exportada_total:
  "fila_exportada nd (f # resto) = Inr (projr (formatear_fecha_compacta nd f) # resto)"
  using formatear_fecha_compacta_total [of nd f]
  by (auto simp: fila_exportada_def)

lemma filas_exportadas:
  "py_map (fila_exportada nd) (sql_select_columnas_order_by_fecha db) =
     Inr (map (\<lambda>r. [projr (formatear_fecha_compacta nd (fecha r)), espacio_curricular r,
                      anio r, horario r, docente r]) (sql_select_order_by_fecha db))"
proof -
  have "py_map (fila_exportada nd) (sql_select_columnas_order_by_fecha db) =
        Inr (map (\<lambda>l. projr (formatear_fecha_compacta nd (hd l)) # tl l)
               (sql_select_columnas_order_by_fecha db))"
    by (rule py_map_total)
       (auto simp: sql_select_columnas_order_by_fecha_def fila_exportada_total)
  then show ?thesis
    by (simp add: sql_select_columnas_order_by_fecha_def sql_select_order_by_fecha_def
          comp_def)
qed

lemma fold_max_cota: "a \<le> fold max xs (a::nat)" "x \<in> set xs \<Longrightarrow> x \<le> fold max xs a"
  by (simp_all add: Max.set_eq_fold [symmetric])

lemma siguiente_id_mayor:
  "secuencia db < siguiente_id db" "r \<in> set (examenes db) \<Longrightarrow> ex_id r < siguiente_id db"
  using fold_max_cota [of "secuencia db" "map ex_id (examenes db)"]
    fold_max_cota (2) [of "ex_id r" "map ex_id (examenes db)" "secuencia db"]
  by (auto simp: siguiente_id_def less_Suc_eq_le)

lemma strptime_ymd_vacia: "strptime_ymd nd [] = Inl ValueError"
  by (simp add: eval_defs)

lemma catalogos_sin_vacio: "[] \<notin> set ESPACIOS_CURRICULARES" "[] \<notin> set anios_permitidos"
  by (simp_all add: ESPACIOS_CURRICULARES_def anios_permitidos_def ustr_def)

lemma py_strip_Nil: "py_strip [] = []"
  by (simp add: py_strip_def)

lemma valido_no_vacio:
  "validar_datos_examen nd f e a h d = Inr (True, []) \<Longrightarrow>
   f \<noteq> [] \<and> e \<noteq> [] \<and> a \<noteq> [] \<and> h \<noteq> [] \<and> d \<noteq> []"
  using catalogos_sin_vacio
  by (auto simp: validar_datos_examen_eq strptime_ymd_vacia py_strip_Nil split: if_splits)

lemma agregar_valido:
  "validar_datos_examen nd f e a h d = Inr (True, []) \<Longrightarrow>
   agregar nd POST (datos f e a h d) db = (Redireccion_index, sql_insert f e a h d db)"
  by (frule valido_no_vacio) (simp add: agregar_def datos_def verdadero_def texto_def)

lemma editar_valido:
  "validar_datos_examen nd f e a h d = Inr (True, []) \<Longrightarrow> i \<le> MAX_ROWID \<Longrightarrow>
   editar nd POST i (datos f e a h d) db = (Redireccion_index, sql_update f e a h d i db)"
  by (frule valido_no_vacio)
     (simp add: editar_def datos_def verdadero_def texto_def sqlite_bind_int_def)

lemma editar_valido_desborde:
  "validar_datos_examen nd f e a h d = Inr (True, []) \<Longrightarrow> MAX_ROWID < i \<Longrightarrow>
   editar nd POST i (datos f e a h d) db = (error_servidor, db)"
  by (frule valido_no_vacio)
     (simp add: editar_def datos_def verdadero_def texto_def sqlite_bind_int_def)

lemma validar_ok:
  "strptime_ymd nd f = Inr fh \<Longrightarrow> e \<in> set ESPACIOS_CURRICULARES \<Longrightarrow>
   a \<in> set anios_permitidos \<Longrightarrow> py_strip h \<noteq> [] \<Longrightarrow> py_strip d \<noteq> [] \<Longrightarrow>
   validar_datos_examen nd f e a h d = Inr (True, [])"
  by (simp add: validar_datos_examen_def)

lemma tres_examenes_eq:
  "tres_examenes nd =
     \<lparr>examenes =
        [\<lparr>ex_id = 1, fecha = ustr ''2025-08-23'', espacio_curricular = ej_lengua,
          anio = ej_segundo_anio, horario = ustr ''14:00'', docente = ej_gomez\<rparr>,
         \<lparr>ex_id = 2, fecha = ustr ''2025-08-22'', espacio_curricular = ej_matematica,
          anio = ej_primer_anio, horario = ustr ''09:30'', docente = ej_diaz\<rparr>,
         \<lparr>ex_id = 3, fecha = ustr ''2025-08-22'', espacio_curricular = ej_lengua,
          anio = ej_segundo_anio, horario = ustr ''14:00'', docente = ej_gomez\<rparr>],
      secuencia = 3\<rparr>"
  by (simp add: tres_examenes_def agregar_valido validar_ok ej_fechas ej_en_catalogo
        ej_anios_permitidos ej_no_vacios sql_insert_def siguiente_id_def base_vacia_def)

lemma tres_examenes_ordenados:
  "sql_select_order_by_fecha (tres_examenes nd) =
        [\<lparr>ex_id = 2, fecha = ustr ''2025-08-22'', espacio_curricular = ej_matematica,
          anio = ej_primer_anio, horario = ustr ''09:30'', docente = ej_diaz\<rparr>,
         \<lparr>ex_id = 3, fecha = ustr ''2025-08-22'', espacio_curricular = ej_lengua,
          anio = ej_segundo_anio, horario = ustr ''14:00'', docente = ej_gomez\<rparr>,
         \<lparr>ex_id = 1, fecha = ustr ''2025-08-23'', espacio_curricular = ej_lengua,
          anio = ej_segundo_anio, horario = ustr ''14:00'', docente = ej_gomez\<rparr>]"
  by (simp add: tres_examenes_eq sql_select_order_by_fecha_def ustr_def)

subsection \<open>Order of the listing\<close>

text \<open>
  The order of the listing is that of the stored text.  \<open>strptime\<close> also accepts a
  month and a day of one digit, the text is stored as it was sent, and for such dates the
  order of the text is not the order of the calendar: 5 September 2025 written 2025-9-5
  comes after 1 October 2025.
\<close>

lemma fechas_sin_relleno:
  "strptime_ymd nd (ustr ''2025-9-5'') = Inr \<lparr>year = 2025, month = 9, day = 5\<rparr> \<and>
   strptime_ymd nd (ustr ''2025-10-01'') = Inr \<lparr>year = 2025, month = 10, day = 1\<rparr> \<and>
   ustr ''2025-10-01'' < ustr ''2025-9-5'' \<and>
   toordinal \<lparr>year = 2025, month = 9, day = 5\<rparr>
     < toordinal \<lparr>year = 2025, month = 10, day = 1\<rparr>"
  by (simp add: eval_defs)

text \<open>
  C3.  The query behind the listing and the export returns the rows of the table in
  ascending order of the text of the date column, which for dates stored in ISO form is
  the order of the calendar; it returns exactly the stored rows, and the rows that share
  a date keep the order they have in the table, which is the order of insertion.  The
  export query returns the same rows in the same order.  After
  adding exams dated 2025-08-23, 2025-08-22 and 2025-08-22 to an empty table, which
  receive the ids 1, 2 and 3, the listing has the rows 2, 3, 1.
\<close>

theorem listado_ordenado_por_fecha:
  "sorted (map fecha (sql_select_order_by_fecha db)) \<and>
   sorted_wrt
     (\<lambda>a b. \<forall>f g. fecha_valida (year f) (month f) (day f) \<and>
              fecha_valida (year g) (month g) (day g) \<and>
              fecha a = isoformat f \<and> fecha b = isoformat g \<longrightarrow> no_posterior f g)
     (sql_select_order_by_fecha db) \<and>
   mset (sql_select_order_by_fecha db) = mset (examenes db) \<and>
   (\<forall>k. filter (\<lambda>r. fecha r = k) (sql_select_order_by_fecha db) =
        filter (\<lambda>r. fecha r = k) (examenes db)) \<and>
   sql_select_columnas_order_by_fecha db =
     map (\<lambda>r. [fecha r, espacio_curricular r, anio r, horario r, docente r])
       (sql_select_order_by_fecha db) \<and>
   map ex_id (examenes (tres_examenes nd)) = [1, 2, 3] \<and>
   map fecha (examenes (tres_examenes nd)) =
     [ustr ''2025-08-23'', ustr ''2025-08-22'', ustr ''2025-08-22''] \<and>
   map ex_id (sql_select_order_by_fecha (tres_examenes nd)) = [2, 3, 1] \<and>
   map fecha (sql_select_order_by_fecha (tres_examenes nd)) =
     [ustr ''2025-08-22'', ustr ''2025-08-22'', ustr ''2025-08-23'']"
proof (intro conjI)
  show o: "sorted (map fecha (sql_select_order_by_fecha db))"
    by (simp add: sql_select_order_by_fecha_def)
  have "sorted_wrt (\<lambda>a b. fecha a \<le> fecha b) (sql_select_order_by_fecha db)"
    using o by (simp add: sorted_map)
  then show "sorted_wrt
     (\<lambda>a b. \<forall>f g. fecha_valida (year f) (month f) (day f) \<and>
              fecha_valida (year g) (month g) (day g) \<and>
              fecha a = isoformat f \<and> fecha b = isoformat g \<longrightarrow> no_posterior f g)
     (sql_select_order_by_fecha db)"
    by (rule sorted_wrt_mono_rel [rotated]) (auto simp: isoformat_no_posterior)
  show "mset (sql_select_order_by_fecha db) = mset (examenes db)"
    by (simp add: sql_select_order_by_fecha_def)
  show "\<forall>k. filter (\<lambda>r. fecha r = k) (sql_select_order_by_fecha db) =
        filter (\<lambda>r. fecha r = k) (examenes db)"
    by (simp add: sql_select_order_by_fecha_def sort_key_stable)
  show "sql_select_columnas_order_by_fecha db =
     map (\<lambda>r. [fecha r, espacio_curricular r, anio r, horario r, docente r])
       (sql_select_order_by_fecha db)"
    by (simp add: sql_select_columnas_order_by_fecha_def sql_select_order_by_fecha_def)
  show "map ex_id (examenes (tres_examenes nd)) = [1, 2, 3]"
    by (simp add: tres_examenes_eq)
  show "map fecha (examenes (tres_examenes nd)) =
     [ustr ''2025-08-23'', ustr ''2025-08-22'', ustr ''2025-08-22'']"
    by (simp add: tres_examenes_eq)
  show "map ex_id (sql_select_order_by_fecha (tres_examenes nd)) = [2, 3, 1]"
    by (simp add: tres_examenes_ordenados)
  show "map fecha (sql_select_order_by_fecha (tres_examenes nd)) =
     [ustr ''2025-08-22'', ustr ''2025-08-22'', ustr ''2025-08-23'']"
    by (simp add: tres_examenes_ordenados)
qed

theorem listado_ordenado_por_fecha_witness:
  "fecha_valida 2025 8 22 \<and> fecha_valida 2025 8 23 \<and>
   isoformat \<lparr>year = 2025, month = 8, day = 22\<rparr> = ustr ''2025-08-22'' \<and>
   isoformat \<lparr>year = 2025, month = 8, day = 23\<rparr> = ustr ''2025-08-23'' \<and>
   no_posterior \<lparr>year = 2025, month = 8, day = 22\<rparr> \<lparr>year = 2025, month = 8, day = 23\<rparr> \<and>
   sorted (map fecha (sql_select_order_by_fecha (tres_examenes nd_ejemplo))) \<and>
   filter (\<lambda>r. fecha r = ustr ''2025-08-22'')
     (sql_select_order_by_fecha (tres_examenes nd_ejemplo)) =
   filter (\<lambda>r. fecha r = ustr ''2025-08-22'') (examenes (tres_examenes nd_ejemplo)) \<and>
   map ex_id (sql_select_order_by_fecha (tres_examenes nd_ejemplo)) = [2, 3, 1]"
proof -
  have "fecha_valida 2025 8 22 \<and> fecha_valida 2025 8 23 \<and>
   isoformat \<lparr>year = 2025, month = 8, day = 22\<rparr> = ustr ''2025-08-22'' \<and>
   isoformat \<lparr>year = 2025, month = 8, day = 23\<rparr> = ustr ''2025-08-23'' \<and>
   no_posterior \<lparr>year = 2025, month = 8, day = 22\<rparr> \<lparr>year = 2025, month = 8, day = 23\<rparr>"
    by (simp add: eval_defs isoformat_def no_posterior_def)
  then show ?thesis
    using listado_ordenado_por_fecha [of "tres_examenes nd_ejemplo" nd_ejemplo] by blast
qed

subsection \<open>Writing and reading back\<close>

lemma find_append_None: "find P xs = None \<Longrightarrow> find P (xs @ ys) = find P ys"
  by (induction xs) (auto split: if_splits)

lemma select_tras_insert:
  "sql_select_por_id (siguiente_id db) (sql_insert f e a h d db) =
     Some \<lparr>ex_id = siguiente_id db, fecha = f, espacio_curricular = e, anio = a,
           horario = h, docente = d\<rparr>"
proof -
  have "\<forall>r\<in>set (examenes db). ex_id r \<noteq> siguiente_id db"
    using siguiente_id_mayor (2) [of _ db] by fastforce
  then have "find (\<lambda>r. ex_id r = siguiente_id db) (examenes db) = None"
    by (simp add: find_None_iff)
  then show ?thesis
    by (simp add: sql_select_por_id_def sql_insert_def find_append_None)
qed




lemma update_inexistente:
  "i \<notin> ex_id ` set (examenes db) \<Longrightarrow> sql_update f e a h d i db = db"
proof -
  assume "i \<notin> ex_id ` set (examenes db)"
  then have "map (\<lambda>r. if ex_id r = i
                then r\<lparr>fecha := f, espacio_curricular := e, anio := a,
                       horario := h, docente := d\<rparr>
                else r) (examenes db) = examenes db"
    by (intro map_idI) auto
  then show ?thesis by (simp add: sql_update_def)
qed




subsection \<open>Editing a row that does not exist\<close>

text \<open>
  C5.  On the empty table, the POST of a valid record to the edit view of id 1 is
  answered with the redirection to the listing and leaves the table as it was; the GET
  of the same view answers 404, and the POST for a row that exists is answered with the
  same redirection.
\<close>

theorem editar_id_inexistente:
  "editar nd_ejemplo POST 1
     (datos (ustr ''2025-08-23'') ej_lengua ej_segundo_anio (ustr ''14:00'') ej_gomez)
     base_vacia = (Redireccion_index, base_vacia) \<and>
   editar nd_ejemplo GET 1
     (datos (ustr ''2025-08-23'') ej_lengua ej_segundo_anio (ustr ''14:00'') ej_gomez)
     base_vacia = (Plantilla_error (ustr ''Examen no encontrado'') 404, base_vacia) \<and>
   fst (editar nd_ejemplo POST 2
     (datos (ustr ''2025-08-23'') ej_lengua ej_segundo_anio (ustr ''14:00'') ej_gomez)
     (tres_examenes nd_ejemplo)) = Redireccion_index"
proof (intro conjI)
  have c: "1 \<le> MAX_ROWID" "2 \<le> MAX_ROWID"
    by (simp_all add: MAX_ROWID_def)
  note ed = editar_valido [OF ej_validos (2) c(1)] editar_valido [OF ej_validos (2) c(2)]
  have "sql_update (ustr ''2025-08-23'') ej_lengua ej_segundo_anio (ustr ''14:00'') ej_gomez
          1 base_vacia = base_vacia"
    by (rule update_inexistente) (simp add: base_vacia_def)
  then show "editar nd_ejemplo POST 1
     (datos (ustr ''2025-08-23'') ej_lengua ej_segundo_anio (ustr ''14:00'') ej_gomez)
     base_vacia = (Redireccion_index, base_vacia)"
    by (simp only: ed)
  show "editar nd_ejemplo GET 1
     (datos (ustr ''2025-08-23'') ej_lengua ej_segundo_anio (ustr ''14:00'') ej_gomez)
     base_vacia = (Plantilla_error (ustr ''Examen no encontrado'') 404, base_vacia)"
    by (simp add: editar_def sqlite_bind_int_def MAX_ROWID_def sql_select_por_id_def
          base_vacia_def)
  show "fst (editar nd_ejemplo POST 2
     (datos (ustr ''2025-08-23'') ej_lengua ej_segundo_anio (ustr ''14:00'') ej_gomez)
     (tres_examenes nd_ejemplo)) = Redireccion_index"
    by (simp only: ed fst_conv)
qed

subsection \<open>Fields are stored as submitted\<close>

lemma py_strip_rodeado: "py_strip h \<noteq> [] \<Longrightarrow> py_strip (pre @ h @ post) \<noteq> []"
  by (auto simp: py_strip_vacio)

lemma index_filas:
  "list_all2 (\<lambda>r r'. formatear_fecha nd (fecha r) = Inr (fecha r') \<and> r' = r\<lparr>fecha := fecha r'\<rparr>)
     xs (map (\<lambda>ex. ex\<lparr>fecha := projr (formatear_fecha nd (fecha ex))\<rparr>) xs)"
  unfolding list_all2_map2 list_all2_same
proof (intro ballI conjI)
  fix x
  obtain y where y: "formatear_fecha nd (fecha x) = Inr y"
    using formatear_fecha_total by blast
  show "formatear_fecha nd (fecha x) =
          Inr (fecha (x\<lparr>fecha := projr (formatear_fecha nd (fecha x))\<rparr>))"
    by (simp add: y)
  show "x\<lparr>fecha := projr (formatear_fecha nd (fecha x))\<rparr> =
          x\<lparr>fecha := fecha (x\<lparr>fecha := projr (formatear_fecha nd (fecha x))\<rparr>)\<rparr>"
    by simp
qed

text \<open>
  C10.  Let a record be valid, and put any text before and after its time slot and its
  teacher (white space, for instance).  The record is still valid; adding it appends a
  row that holds the five submitted strings unchanged, which the query by id and the
  listing query return as stored; editing replaces the five fields of the rows with that
  id by the submitted strings and leaves the other rows alone (for an id above
  \<open>2^63 - 1\<close>, which no row has and which cannot be bound, the table is left as it is).
  The listing view returns
  the rows of the query with only the date replaced by its long format.
\<close>

theorem campos_almacenados_sin_cambios:
  assumes valido: "validar_datos_examen nd f e a h d = Inr (True, [])"
  shows
    "validar_datos_examen nd f e a (pre @ h @ post) (pre' @ d @ post') = Inr (True, []) \<and>
     snd (agregar nd POST (datos f e a (pre @ h @ post) (pre' @ d @ post')) db) =
       \<lparr>examenes = examenes db @
          [\<lparr>ex_id = siguiente_id db, fecha = f, espacio_curricular = e, anio = a,
            horario = pre @ h @ post, docente = pre' @ d @ post'\<rparr>],
        secuencia = siguiente_id db\<rparr> \<and>
     sql_select_por_id (siguiente_id db)
        (snd (agregar nd POST (datos f e a (pre @ h @ post) (pre' @ d @ post')) db)) =
       Some \<lparr>ex_id = siguiente_id db, fecha = f, espacio_curricular = e, anio = a,
             horario = pre @ h @ post, docente = pre' @ d @ post'\<rparr> \<and>
     \<lparr>ex_id = siguiente_id db, fecha = f, espacio_curricular = e, anio = a,
       horario = pre @ h @ post, docente = pre' @ d @ post'\<rparr>
       \<in> set (sql_select_order_by_fecha
                (snd (agregar nd POST (datos f e a (pre @ h @ post) (pre' @ d @ post')) db))) \<and>
     snd (editar nd POST i (datos f e a (pre @ h @ post) (pre' @ d @ post')) db) =
       (if i \<le> MAX_ROWID
        then db\<lparr>examenes :=
               map (\<lambda>r. if ex_id r = i
                         then \<lparr>ex_id = i, fecha = f, espacio_curricular = e, anio = a,
                               horario = pre @ h @ post, docente = pre' @ d @ post'\<rparr>
                         else r) (examenes db)\<rparr>
        else db) \<and>
     (\<exists>filas. index nd db = Plantilla_index filas \<and>
        list_all2 (\<lambda>r r'. formatear_fecha nd (fecha r) = Inr (fecha r') \<and>
                           r' = r\<lparr>fecha := fecha r'\<rparr>)
          (sql_select_order_by_fecha db) filas)"
proof -
  have v: "validar_datos_examen nd f e a (pre @ h @ post) (pre' @ d @ post') = Inr (True, [])"
    using valido by (simp add: validar_datos_examen_eq py_strip_rodeado split: if_splits)
  note ag = agregar_valido [OF v, of db]
  have u: "map (\<lambda>r. if ex_id r = i
                     then r\<lparr>fecha := f, espacio_curricular := e, anio := a,
                            horario := pre @ h @ post, docente := pre' @ d @ post'\<rparr>
                     else r) (examenes db) =
           map (\<lambda>r. if ex_id r = i
                     then \<lparr>ex_id = i, fecha = f, espacio_curricular = e, anio = a,
                           horario = pre @ h @ post, docente = pre' @ d @ post'\<rparr>
                     else r) (examenes db)"
    by (rule map_cong) auto
  show ?thesis
  proof (intro conjI)
    show "validar_datos_examen nd f e a (pre @ h @ post) (pre' @ d @ post') = Inr (True, [])"
      by (rule v)
    show "snd (agregar nd POST (datos f e a (pre @ h @ post) (pre' @ d @ post')) db) =
       \<lparr>examenes = examenes db @
          [\<lparr>ex_id = siguiente_id db, fecha = f, espacio_curricular = e, anio = a,
            horario = pre @ h @ post, docente = pre' @ d @ post'\<rparr>],
        secuencia = siguiente_id db\<rparr>"
      by (simp add: ag sql_insert_def)
    show "sql_select_por_id (siguiente_id db)
        (snd (agregar nd POST (datos f e a (pre @ h @ post) (pre' @ d @ post')) db)) =
       Some \<lparr>ex_id = siguiente_id db, fecha = f, espacio_curricular = e, anio = a,
             horario = pre @ h @ post, docente = pre' @ d @ post'\<rparr>"
      by (simp add: ag select_tras_insert)
    show "\<lparr>ex_id = siguiente_id db, fecha = f, espacio_curricular = e, anio = a,
       horario = pre @ h @ post, docente = pre' @ d @ post'\<rparr>
       \<in> set (sql_select_order_by_fecha
                (snd (agregar nd POST (datos f e a (pre @ h @ post) (pre' @ d @ post')) db)))"
      by (simp add: ag sql_select_order_by_fecha_def sql_insert_def)
    show "snd (editar nd POST i (datos f e a (pre @ h @ post) (pre' @ d @ post')) db) =
       (if i \<le> MAX_ROWID
        then db\<lparr>examenes :=
               map (\<lambda>r. if ex_id r = i
                         then \<lparr>ex_id = i, fecha = f, espacio_curricular = e, anio = a,
                               horario = pre @ h @ post, docente = pre' @ d @ post'\<rparr>
                         else r) (examenes db)\<rparr>
        else db)"
    proof (cases "i \<le> MAX_ROWID")
      case True
      then show ?thesis
        by (simp add: editar_valido [OF v True] sql_update_def u)
    next
      case False
      then have "MAX_ROWID < i" by simp
      from editar_valido_desborde [OF v this] False show ?thesis by simp
    qed
    show "\<exists>filas. index nd db = Plantilla_index filas \<and>
        list_all2 (\<lambda>r r'. formatear_fecha nd (fecha r) = Inr (fecha r') \<and>
                           r' = r\<lparr>fecha := fecha r'\<rparr>)
          (sql_select_order_by_fecha db) filas"
      unfolding index_eq using index_filas by blast
  qed
qed

theorem campos_almacenados_sin_cambios_witness:
  "validar_datos_examen nd_ejemplo (ustr ''2025-08-22'') ej_matematica ej_primer_anio
     (ustr ''09:30'') ej_diaz = Inr (True, []) \<and>
   validar_datos_examen nd_ejemplo (ustr ''2025-08-22'') ej_matematica ej_primer_anio
     (ustr '' 09:30 '') ej_diaz = Inr (True, []) \<and>
   sql_select_por_id 1
     (snd (agregar nd_ejemplo POST
             (datos (ustr ''2025-08-22'') ej_matematica ej_primer_anio (ustr '' 09:30 '')
                ej_diaz) base_vacia)) =
     Some \<lparr>ex_id = 1, fecha = ustr ''2025-08-22'', espacio_curricular = ej_matematica,
           anio = ej_primer_anio, horario = ustr '' 09:30 '', docente = ej_diaz\<rparr>"
proof -
  have v: "validar_datos_examen nd_ejemplo (ustr ''2025-08-22'') ej_matematica ej_primer_anio
     (ustr ''09:30'') ej_diaz = Inr (True, [])"
    by (rule ej_validos)
  have t: "ustr '' '' @ ustr ''09:30'' @ ustr '' '' = ustr '' 09:30 ''"
    by (simp add: ustr_def)
  have n: "siguiente_id base_vacia = 1"
    by (simp add: siguiente_id_def base_vacia_def)
  show ?thesis
    using v campos_almacenados_sin_cambios [OF v, where pre = "ustr '' ''"
        and post = "ustr '' ''" and pre' = "[]" and post' = "[]" and db = base_vacia and i = 1]
    unfolding t n append_Nil append_Nil2
    by blast
qed

subsection \<open>Export\<close>

lemma un_examen_eq:
  "un_examen nd =
     \<lparr>examenes =
        [\<lparr>ex_id = 1, fecha = ustr ''2025-09-12'', espacio_curricular = ej_matematica,
          anio = ej_primer_anio, horario = ustr ''09:00 - 11:00'', docente = ej_diaz\<rparr>],
      secuencia = 1\<rparr>"
  by (simp add: un_examen_def agregar_valido ej_validos sql_insert_def siguiente_id_def
        base_vacia_def)

lemma exportar_pdf_csv:
  "exportar_pdf nd False ahora None db =
     Descarga_csv
       (csv_writerow encabezado @
        concat (map csv_writerow
          (map (\<lambda>r. [projr (formatear_fecha_compacta nd (fecha r)), espacio_curricular r,
                      anio r, horario r, docente r]) (sql_select_order_by_fecha db))))"
  by (simp add: exportar_pdf_def filas_exportadas)

lemma exportar_pdf_reportlab:
  "exportar_pdf nd True ahora None db =
     Descarga_pdf
       \<lparr>titulo = ustr ''Cronograma de Ex'' @ [225] @ ustr ''menes'',
        datos_tabla = encabezado #
          map (\<lambda>r. [projr (formatear_fecha_compacta nd (fecha r)), espacio_curricular r,
                      anio r, horario r, docente r]) (sql_select_order_by_fecha db),
        anchos_columna = [90, 150, 50, 70, 90],
        pie_pagina =
          ustr ''<i>Exportado el '' @ ahora @
          ustr '' - Total de ex'' @ [225] @ ustr ''menes: '' @
          py_str_nat (length (examenes db)) @ ustr ''</i>''\<rparr>"
  by (simp add: exportar_pdf_def filas_exportadas sql_select_order_by_fecha_def)

lemma csv_un_examen:
  "exportar_pdf nd False ahora None (un_examen nd) =
     Descarga_csv
       (ustr ''Fecha,Espacio Curricular,A'' @ [241] @ ustr ''o,Horario,Docente'' @ [13, 10] @
        ustr ''VIE 12/09/2025,Matem'' @ [225] @ ustr ''tica,1'' @ [176] @ ustr '' a'' @ [241] @
        ustr ''o,09:00 - 11:00,'' @ [34] @ ustr ''DIAZ, PAMELA'' @ [34] @ [13, 10])"
proof -
  have c: "formatear_fecha_compacta nd (ustr ''2025-09-12'') = Inr (ustr ''VIE 12/09/2025'')"
    by (simp add: eval_defs)
  show ?thesis
    by (simp add: exportar_pdf_csv un_examen_eq sql_select_order_by_fecha_def c)
       (simp add: csv_writerow_def csv_campo_def csv_especial_def encabezado_def ej_defs
          ustr_def)
qed

text \<open>
  C6, as the application behaves.  After the exam of 2025-09-12 is added to an empty
  table, the listing shows it with the date VIERNES 12/09/2025, and without ReportLab
  the export is a CSV text of two lines: the five column names separated by commas, and
  the row with the compact date, in which the teacher is enclosed in double quotes
  because it contains a comma.
\<close>

theorem escenario_exportacion_csv:
  "index nd (un_examen nd) =
     Plantilla_index
       [\<lparr>ex_id = 1, fecha = ustr ''VIERNES 12/09/2025'', espacio_curricular = ej_matematica,
         anio = ej_primer_anio, horario = ustr ''09:00 - 11:00'', docente = ej_diaz\<rparr>] \<and>
   lineas_crlf [] (texto_csv (exportar_pdf nd False ahora None (un_examen nd))) =
     [ustr ''Fecha,Espacio Curricular,A'' @ [241] @ ustr ''o,Horario,Docente'',
      ustr ''VIE 12/09/2025,Matem'' @ [225] @ ustr ''tica,1'' @ [176] @ ustr '' a'' @ [241] @
      ustr ''o,09:00 - 11:00,'' @ [34] @ ustr ''DIAZ, PAMELA'' @ [34]]"
proof
  have l: "formatear_fecha nd (ustr ''2025-09-12'') = Inr (ustr ''VIERNES 12/09/2025'')"
    by (simp add: eval_defs)
  show "index nd (un_examen nd) =
     Plantilla_index
       [\<lparr>ex_id = 1, fecha = ustr ''VIERNES 12/09/2025'', espacio_curricular = ej_matematica,
         anio = ej_primer_anio, horario = ustr ''09:00 - 11:00'', docente = ej_diaz\<rparr>]"
    by (simp add: index_eq un_examen_eq sql_select_order_by_fecha_def l)
  show "lineas_crlf [] (texto_csv (exportar_pdf nd False ahora None (un_examen nd))) =
     [ustr ''Fecha,Espacio Curricular,A'' @ [241] @ ustr ''o,Horario,Docente'',
      ustr ''VIE 12/09/2025,Matem'' @ [225] @ ustr ''tica,1'' @ [176] @ ustr '' a'' @ [241] @
      ustr ''o,09:00 - 11:00,'' @ [34] @ ustr ''DIAZ, PAMELA'' @ [34]]"
    by (simp add: csv_un_examen ustr_def)
qed

theorem escenario_exportacion_csv_witness:
  "lineas_crlf [] (texto_csv (exportar_pdf nd_ejemplo False [] None (un_examen nd_ejemplo))) ! 1 =
     ustr ''VIE 12/09/2025,Matem'' @ [225] @ ustr ''tica,1'' @ [176] @ ustr '' a'' @ [241] @
     ustr ''o,09:00 - 11:00,'' @ [34] @ ustr ''DIAZ, PAMELA'' @ [34]"
  using escenario_exportacion_csv [of nd_ejemplo "[]"] by simp

text \<open>
  C6, as the specification words it: the second line of the CSV is not the row with the
  teacher written without quotes.
\<close>

theorem segunda_linea_csv_contraejemplo:
  "lineas_crlf [] (texto_csv (exportar_pdf nd_ejemplo False [] None (un_examen nd_ejemplo))) ! 1 \<noteq>
     ustr ''VIE 12/09/2025,Matem'' @ [225] @ ustr ''tica,1'' @ [176] @ ustr '' a'' @ [241] @
     ustr ''o,09:00 - 11:00,DIAZ, PAMELA''"
  by (simp add: csv_un_examen ustr_def)

text \<open>
  C9.  For every table, both ways of exporting write the rows of the listing query, in
  the order of that query, which is ascending by date and holds exactly the stored rows.
  Each row has five cells in the order date, subject, year, time slot, teacher; the date
  cell is the compact format (the abbreviation LUN ... DOM of the day of the week, a
  space, day/month/year, or the stored text if it is not a date) and the other four are
  the stored texts.  With ReportLab these rows, under the header row, are the table of
  the PDF document.  Without it the text of the CSV has the header line and one line for
  each row: the five cells separated by commas, a cell with a comma, a double quote or a
  line break enclosed in double quotes with its quotes doubled, and CR LF at the end.
\<close>

theorem exportacion_columnas_y_orden:
  "exportar_pdf nd True ahora None db =
       Descarga_pdf
         \<lparr>titulo = ustr ''Cronograma de Ex'' @ [225] @ ustr ''menes'',
          datos_tabla =
            [ustr ''Fecha'', ustr ''Espacio Curricular'', ustr ''A'' @ [241] @ ustr ''o'',
             ustr ''Horario'', ustr ''Docente''] #
            map (\<lambda>r. [(case strptime_ymd nd (fecha r) of
                      Inl e \<Rightarrow> fecha r
                    | Inr f \<Rightarrow>
                        [ustr ''LUN'', ustr ''MAR'', ustr ''MIE'', ustr ''JUE'', ustr ''VIE'',
                         ustr ''SAB'', ustr ''DOM''] ! weekday f
                        @ ustr '' '' @ dos_digitos (day f) @ ustr ''/''
                        @ dos_digitos (month f) @ ustr ''/'' @ py_str_nat (year f)),
                      espacio_curricular r, anio r, horario r, docente r])
              (sql_select_order_by_fecha db),
          anchos_columna = [90, 150, 50, 70, 90],
          pie_pagina =
            ustr ''<i>Exportado el '' @ ahora @
            ustr '' - Total de ex'' @ [225] @ ustr ''menes: '' @
            py_str_nat (length (examenes db)) @ ustr ''</i>''\<rparr> \<and>
   exportar_pdf nd False ahora None db =
       Descarga_csv
         (ustr ''Fecha,Espacio Curricular,A'' @ [241] @ ustr ''o,Horario,Docente'' @ [13, 10] @
          concat
            (map (\<lambda>r. (let q = (\<lambda>c. if \<exists>x\<in>set c. x = 44 \<or> x = 34 \<or> x = 13 \<or> x = 10
                   then [34] @ concat (map (\<lambda>x. if x = 34 then [34, 34] else [x]) c) @ [34]
                   else c)
                       in q (case strptime_ymd nd (fecha r) of
                      Inl e \<Rightarrow> fecha r
                    | Inr f \<Rightarrow>
                        [ustr ''LUN'', ustr ''MAR'', ustr ''MIE'', ustr ''JUE'', ustr ''VIE'',
                         ustr ''SAB'', ustr ''DOM''] ! weekday f
                        @ ustr '' '' @ dos_digitos (day f) @ ustr ''/''
                        @ dos_digitos (month f) @ ustr ''/'' @ py_str_nat (year f))
                          @ [44] @ q (espacio_curricular r) @ [44] @ q (anio r) @ [44]
                          @ q (horario r) @ [44] @ q (docente r) @ [13, 10]))
               (sql_select_order_by_fecha db))) \<and>
   sorted (map fecha (sql_select_order_by_fecha db)) \<and>
   mset (sql_select_order_by_fecha db) = mset (examenes db)"
proof (intro conjI)
  have celda: "formatear_fecha_compacta nd s =
      Inr (case strptime_ymd nd s of
          Inl e \<Rightarrow> s
        | Inr f \<Rightarrow>
            [ustr ''LUN'', ustr ''MAR'', ustr ''MIE'', ustr ''JUE'', ustr ''VIE'',
             ustr ''SAB'', ustr ''DOM''] ! weekday f
            @ ustr '' '' @ dos_digitos (day f) @ ustr ''/''
            @ dos_digitos (month f) @ ustr ''/'' @ py_str_nat (year f))" for s
  proof (cases "strptime_ymd nd s")
    case (Inl e)
    then have "e = ValueError" by (rule strptime_ymd_error)
    with Inl show ?thesis
      by (simp add: formatear_fecha_compacta_def cuerpo_formato_def)
  next
    case (Inr f)
    then have "formatear_fecha_compacta nd s =
        Inr (dias_semana_abrev ! weekday f @ [32] @ strftime_dmY f)"
      by (simp add: formatear_fecha_compacta_def cuerpo_formato_def py_index_def
            weekday_menor_7 length_dias_semana_abrev)
    with Inr show ?thesis
      by (simp add: dias_semana_abrev_def strftime_dmY_def ustr_def)
  qed
  have filas: "py_map (fila_exportada nd) (sql_select_columnas_order_by_fecha db) =
      Inr (map (\<lambda>l. (case strptime_ymd nd (hd l) of
          Inl e \<Rightarrow> hd l
        | Inr f \<Rightarrow>
            [ustr ''LUN'', ustr ''MAR'', ustr ''MIE'', ustr ''JUE'', ustr ''VIE'',
             ustr ''SAB'', ustr ''DOM''] ! weekday f
            @ ustr '' '' @ dos_digitos (day f) @ ustr ''/''
            @ dos_digitos (month f) @ ustr ''/'' @ py_str_nat (year f)) # tl l)
             (sql_select_columnas_order_by_fecha db))"
    by (rule py_map_total)
       (auto simp: sql_select_columnas_order_by_fecha_def fila_exportada_def celda
          cong: sum.case_cong)
  have linea: "csv_writerow [a, b, c, d, e] =
     (let q = (\<lambda>c. if \<exists>x\<in>set c. x = 44 \<or> x = 34 \<or> x = 13 \<or> x = 10
                   then [34] @ concat (map (\<lambda>x. if x = 34 then [34, 34] else [x]) c) @ [34]
                   else c)
      in q a @ [44] @ q b @ [44] @ q c @ [44] @ q d @ [44] @ q e @ [13, 10])" for a b c d e
    by (simp add: csv_writerow_def csv_campo_def csv_especial_def list_ex_iff Let_def)
  have cabecera: "csv_writerow encabezado =
     ustr ''Fecha,Espacio Curricular,A'' @ [241] @ ustr ''o,Horario,Docente'' @ [13, 10]"
    by (simp add: csv_writerow_def csv_campo_def csv_especial_def encabezado_def ustr_def)
  show "exportar_pdf nd True ahora None db =
       Descarga_pdf
         \<lparr>titulo = ustr ''Cronograma de Ex'' @ [225] @ ustr ''menes'',
          datos_tabla =
            [ustr ''Fecha'', ustr ''Espacio Curricular'', ustr ''A'' @ [241] @ ustr ''o'',
             ustr ''Horario'', ustr ''Docente''] #
            map (\<lambda>r. [(case strptime_ymd nd (fecha r) of
                      Inl e \<Rightarrow> fecha r
                    | Inr f \<Rightarrow>
                        [ustr ''LUN'', ustr ''MAR'', ustr ''MIE'', ustr ''JUE'', ustr ''VIE'',
                         ustr ''SAB'', ustr ''DOM''] ! weekday f
                        @ ustr '' '' @ dos_digitos (day f) @ ustr ''/''
                        @ dos_digitos (month f) @ ustr ''/'' @ py_str_nat (year f)),
                      espacio_curricular r, anio r, horario r, docente r])
              (sql_select_order_by_fecha db),
          anchos_columna = [90, 150, 50, 70, 90],
          pie_pagina =
            ustr ''<i>Exportado el '' @ ahora @
            ustr '' - Total de ex'' @ [225] @ ustr ''menes: '' @
            py_str_nat (length (examenes db)) @ ustr ''</i>''\<rparr>"
    unfolding exportar_pdf_def filas
    by (simp add: encabezado_def
          sql_select_columnas_order_by_fecha_def sql_select_order_by_fecha_def comp_def
          cong: sum.case_cong)
  show "exportar_pdf nd False ahora None db =
       Descarga_csv
         (ustr ''Fecha,Espacio Curricular,A'' @ [241] @ ustr ''o,Horario,Docente'' @ [13, 10] @
          concat
            (map (\<lambda>r. (let q = (\<lambda>c. if \<exists>x\<in>set c. x = 44 \<or> x = 34 \<or> x = 13 \<or> x = 10
                   then [34] @ concat (map (\<lambda>x. if x = 34 then [34, 34] else [x]) c) @ [34]
                   else c)
                       in q (case strptime_ymd nd (fecha r) of
                      Inl e \<Rightarrow> fecha r
                    | Inr f \<Rightarrow>
                        [ustr ''LUN'', ustr ''MAR'', ustr ''MIE'', ustr ''JUE'', ustr ''VIE'',
                         ustr ''SAB'', ustr ''DOM''] ! weekday f
                        @ ustr '' '' @ dos_digitos (day f) @ ustr ''/''
                        @ dos_digitos (month f) @ ustr ''/'' @ py_str_nat (year f))
                          @ [44] @ q (espacio_curricular r) @ [44] @ q (anio r) @ [44]
                          @ q (horario r) @ [44] @ q (docente r) @ [13, 10]))
               (sql_select_order_by_fecha db)))"
    unfolding exportar_pdf_def filas cabecera
    by (simp add: linea
          sql_select_columnas_order_by_fecha_def sql_select_order_by_fecha_def comp_def
          cong: sum.case_cong)
  show "sorted (map fecha (sql_select_order_by_fecha db))"
    by (simp add: sql_select_order_by_fecha_def)
  show "mset (sql_select_order_by_fecha db) = mset (examenes db)"
    by (simp add: sql_select_order_by_fecha_def)
qed

theorem exportacion_columnas_y_orden_witness:
  "exportar_pdf nd_ejemplo False [] None (tres_examenes nd_ejemplo) =
     Descarga_csv
       (ustr ''Fecha,Espacio Curricular,A'' @ [241] @ ustr ''o,Horario,Docente'' @ [13, 10] @
        ustr ''VIE 22/08/2025,Matem'' @ [225] @ ustr ''tica,1'' @ [176] @ ustr '' a'' @ [241] @
        ustr ''o,09:30,'' @ [34] @ ustr ''DIAZ, PAMELA'' @ [34] @ [13, 10] @
        ustr ''VIE 22/08/2025,Lengua,2'' @ [176] @ ustr '' a'' @ [241] @
        ustr ''o,14:00,'' @ [34] @ ustr ''GOMEZ, CARLOS'' @ [34] @ [13, 10] @
        ustr ''SAB 23/08/2025,Lengua,2'' @ [176] @ ustr '' a'' @ [241] @
        ustr ''o,14:00,'' @ [34] @ ustr ''GOMEZ, CARLOS'' @ [34] @ [13, 10]) \<and>
   exportar_pdf nd_ejemplo True (ustr ''12/09/2025 10:00'') None (tres_examenes nd_ejemplo) =
     Descarga_pdf
       \<lparr>titulo = ustr ''Cronograma de Ex'' @ [225] @ ustr ''menes'',
        datos_tabla =
          [[ustr ''Fecha'', ustr ''Espacio Curricular'', ustr ''A'' @ [241] @ ustr ''o'',
            ustr ''Horario'', ustr ''Docente''],
           [ustr ''VIE 22/08/2025'', ej_matematica, ej_primer_anio, ustr ''09:30'', ej_diaz],
           [ustr ''VIE 22/08/2025'', ej_lengua, ej_segundo_anio, ustr ''14:00'', ej_gomez],
           [ustr ''SAB 23/08/2025'', ej_lengua, ej_segundo_anio, ustr ''14:00'', ej_gomez]],
        anchos_columna = [90, 150, 50, 70, 90],
        pie_pagina =
          ustr ''<i>Exportado el 12/09/2025 10:00 - Total de ex'' @ [225] @
          ustr ''menes: 3</i>''\<rparr>"
proof -
  note t = exportacion_columnas_y_orden [of nd_ejemplo _ "tres_examenes nd_ejemplo"]
  note a = t [of "[]", THEN conjunct2, THEN conjunct1]
  note b = t [of "ustr ''12/09/2025 10:00''", THEN conjunct1]
  have l: "length (examenes (tres_examenes nd_ejemplo)) = 3"
    by (simp add: tres_examenes_eq)
  have directo: "exportar_pdf nd_ejemplo False [] None (tres_examenes nd_ejemplo) =
     Descarga_csv
       (ustr ''Fecha,Espacio Curricular,A'' @ [241] @ ustr ''o,Horario,Docente'' @ [13, 10] @
        ustr ''VIE 22/08/2025,Matem'' @ [225] @ ustr ''tica,1'' @ [176] @ ustr '' a'' @ [241] @
        ustr ''o,09:30,'' @ [34] @ ustr ''DIAZ, PAMELA'' @ [34] @ [13, 10] @
        ustr ''VIE 22/08/2025,Lengua,2'' @ [176] @ ustr '' a'' @ [241] @
        ustr ''o,14:00,'' @ [34] @ ustr ''GOMEZ, CARLOS'' @ [34] @ [13, 10] @
        ustr ''SAB 23/08/2025,Lengua,2'' @ [176] @ ustr '' a'' @ [241] @
        ustr ''o,14:00,'' @ [34] @ ustr ''GOMEZ, CARLOS'' @ [34] @ [13, 10])"
    by (simp add: exportar_pdf_def sql_select_columnas_order_by_fecha_def tres_examenes_eq
          fila_exportada_def eval_defs csv_writerow_def csv_campo_def csv_especial_def
          encabezado_def ej_defs Let_def)
  have "exportar_pdf nd_ejemplo False [] None (tres_examenes nd_ejemplo) =
     Descarga_csv
       (ustr ''Fecha,Espacio Curricular,A'' @ [241] @ ustr ''o,Horario,Docente'' @ [13, 10] @
        ustr ''VIE 22/08/2025,Matem'' @ [225] @ ustr ''tica,1'' @ [176] @ ustr '' a'' @ [241] @
        ustr ''o,09:30,'' @ [34] @ ustr ''DIAZ, PAMELA'' @ [34] @ [13, 10] @
        ustr ''VIE 22/08/2025,Lengua,2'' @ [176] @ ustr '' a'' @ [241] @
        ustr ''o,14:00,'' @ [34] @ ustr ''GOMEZ, CARLOS'' @ [34] @ [13, 10] @
        ustr ''SAB 23/08/2025,Lengua,2'' @ [176] @ ustr '' a'' @ [241] @
        ustr ''o,14:00,'' @ [34] @ ustr ''GOMEZ, CARLOS'' @ [34] @ [13, 10])"
    unfolding a tres_examenes_ordenados
    by (simp add: eval_defs Let_def ej_defs)
  with directo show ?thesis
    unfolding b tres_examenes_ordenados l
    by (simp add: eval_defs Let_def ej_defs)
qed

end
